theory Spec2Isabelle
  imports Complex_Main "HOL-Library.Word" "HOL-Library.AList" "HOL-Library.Sublist"
begin

section \<open>Values of the attachment subsystem (db/attachment.go)\<close>

text \<open>
  A Go byte slice is either \<open>nil\<close> or a sequence of bytes; the source tests slices
  against \<open>nil\<close> and against length zero separately, so both are kept apart:
  \<open>None\<close> is the nil slice, \<open>Some []\<close> the empty one.
\<close>

type_synonym byte = "8 word"
type_synonym bytes = "byte list option"

definition len :: "bytes \<Rightarrow> nat" where
  "len b = (case b of None \<Rightarrow> 0 | Some bs \<Rightarrow> length bs)"

definition contents :: "bytes \<Rightarrow> byte list" where
  "contents b = (case b of None \<Rightarrow> [] | Some bs \<Rightarrow> bs)"

text \<open>\<open>type AttachmentKey string\<close>\<close>

type_synonym AttachmentKey = string

text \<open>
  The dynamic values an \<open>interface{}\<close> holds in a document body: what the JSON decoder
  produces (nil, bool, float64, string, slices and string-keyed maps), the Go \<open>int\<close>
  that \<open>storeAttachments\<close> writes for \<open>revpos\<close> and the lengths, and the
  \<open>[]byte\<close> that \<open>LoadData\<close> writes under \<open>data\<close>.  A finite float64 is carried as
  the rational it denotes; no arithmetic is done on it here.  A map is an association
  list: its order is the order in which \<open>range\<close> visits it, which Go leaves open, so a
  statement about every list is a statement about every iteration order.  Indexing goes
  through \<open>map_of\<close>, assignment through \<open>AList.update\<close>.
\<close>

datatype any =
    VNil
  | VBool bool
  | VInt int
  | VFloat64 rat
  | VString string
  | VBytes bytes
  | VSlice "any list"
  | VMap "(string \<times> any) list"

type_synonym gomap = "(string \<times> any) list"
type_synonym Body = gomap

text \<open>\<open>m[k]\<close> on a map: the nil interface when the key is absent.\<close>

definition index :: "gomap \<Rightarrow> string \<Rightarrow> any" where
  "index m k = (case map_of m k of None \<Rightarrow> VNil | Some v \<Rightarrow> v)"

text \<open>\<open>v.(string)\<close> in its two-result form.\<close>

definition as_string :: "any \<Rightarrow> string \<times> bool" where
  "as_string v = (case v of VString s \<Rightarrow> (s, True) | _ \<Rightarrow> ([], False))"

text \<open>\<open>v.([]byte)\<close> in its two-result form.\<close>

definition as_bytes :: "any \<Rightarrow> bytes \<times> bool" where
  "as_bytes v = (case v of VBytes b \<Rightarrow> (b, True) | _ \<Rightarrow> (None, False))"

text \<open>
  \<open>v.(map[string]interface{})\<close> in its two-result form; \<open>None\<close> is the nil map.
  A nil map wrapped in a non-nil interface is produced neither by the JSON decoder nor by
  this file and has no constructor.
\<close>

definition as_map :: "any \<Rightarrow> gomap option" where
  "as_map v = (case v of VMap m \<Rightarrow> Some m | _ \<Rightarrow> None)"

text \<open>
  Errors. \<open>base.HTTPErrorf(status, format, args...)\<close> is kept unformatted: the status,
  the format string and the arguments. Every other error comes from a collaborator or
  from the standard library and is opaque.
\<close>

datatype error =
    HTTPError nat string "any list"
  | OtherError string

definition HTTPErrorf :: "nat \<Rightarrow> string \<Rightarrow> any list \<Rightarrow> error" where
  "HTTPErrorf status format args = HTTPError status format args"

text \<open>
  What the file takes from outside the repository's db package and is not under src:
  the standard library's SHA-1, base64 and \<open>%q\<close> quoting, and \<open>base.ToInt64\<close>.
  They are parameters of the model.  \<open>base64.StdEncoding.DecodeString\<close> returns the bytes
  decoded so far together with the error, hence a pair.
\<close>

record extern =
  sha1_Sum :: "byte list \<Rightarrow> byte list"
  base64_EncodeToString :: "byte list \<Rightarrow> string"
  base64_DecodeString :: "string \<Rightarrow> bytes \<times> error option"
  Sprintf_q :: "string \<Rightarrow> string"
  ToInt64 :: "any \<Rightarrow> int \<times> bool"

section \<open>The Attachment handle\<close>

text \<open>
  \<open>type Attachment struct\<close>. The \<open>meta\<close> field is held by value: no statement below
  depends on its aliasing with the body. It is a map and not nil, as it is for every handle
  that \<open>findAttachments\<close> makes. The \<open>db\<close> pointer is replaced by passing the
  database state to the operations that use it.
\<close>

record Attachment =
  Name :: string
  followingData :: bytes
  possibleDeltaSources :: "AttachmentKey list option"
  deltaSource :: AttachmentKey
  meta :: gomap

definition ContentType :: "Attachment \<Rightarrow> string" where
  "ContentType a = fst (as_string (index (meta a) ''content_type''))"

definition Key :: "Attachment \<Rightarrow> AttachmentKey" where
  "Key a = fst (as_string (index (meta a) ''digest''))"

text \<open>
  \<open>textproto.MIMEHeader\<close> is \<open>map[string][]string\<close>; \<open>Set\<close> replaces the values of
  the canonical form of the key by the one value. Every key used below is already in
  canonical form.
\<close>

type_synonym MIMEHeader = "string \<rightharpoonup> string list"

definition MIMEHeader_Set :: "string \<Rightarrow> string \<Rightarrow> MIMEHeader \<Rightarrow> MIMEHeader" where
  "MIMEHeader_Set k v h = h(k \<mapsto> [v])"

definition Headers :: "extern \<Rightarrow> Attachment \<Rightarrow> bool \<Rightarrow> MIMEHeader" where
  "Headers x a full =
     (let h = Map.empty;
          h = (if deltaSource a \<noteq> '''' then
                 MIMEHeader_Set ''X-Delta-Source'' (deltaSource a) (MIMEHeader_Set ''Content-Encoding'' ''zdelta'' h)
               else (let encoding = fst (as_string (index (meta a) ''encoding'')) in
                     if encoding \<noteq> '''' then MIMEHeader_Set ''Content-Encoding'' encoding h else h));
          h = (if full then
                 (let contentType = ContentType a in
                  if contentType \<noteq> '''' then MIMEHeader_Set ''Content-Type'' contentType h else h)
               else MIMEHeader_Set ''Content-Disposition'' (''attachment; filename='' @ Sprintf_q x (Name a)) h)
      in h)"

definition Data :: "Attachment \<Rightarrow> bytes" where
  "Data a =
     (let data = followingData a in
      if data = None then fst (as_bytes (index (meta a) ''data'')) else data)"

section \<open>The compressibility classifier\<close>

text \<open>
  The four regular expressions of \<open>init\<close> use literals, alternation, \<open>?\<close>, the anchors
  \<open>^\<close> and \<open>$\<close> (without the multi-line flag: begin and end of the text) and the
  ASCII word boundary \<open>\b\<close>, all under the case-insensitive flag \<open>(?i)\<close>. No
  repetition occurs, so a matcher by structural recursion on the expression is enough.
  Strings are byte strings; a position is the byte before it (if any) and the rest.
\<close>

datatype regex =
    Empty
  | Rune "string list"
  | Seq regex regex
  | Alt regex regex
  | Opt regex
  | BeginText
  | EndText
  | WordBoundary

type_synonym position = "char option \<times> string"

definition is_word_char :: "char \<Rightarrow> bool" where
  "is_word_char c = (c \<in> set ''0123456789ABCDEFGHIJKLMNOPQRSTUVWXYZ_abcdefghijklmnopqrstuvwxyz'')"

definition word_before :: "position \<Rightarrow> bool" where
  "word_before p = (case fst p of None \<Rightarrow> False | Some c \<Rightarrow> is_word_char c)"

definition word_after :: "position \<Rightarrow> bool" where
  "word_after p = (case snd p of [] \<Rightarrow> False | c # _ \<Rightarrow> is_word_char c)"

text \<open>
  \<open>Rune alts\<close> matches one of the byte sequences \<open>alts\<close> (the encodings of the runes
  a literal stands for). The result of matching is the list of positions a match can end
  at.
\<close>

definition match_bytes :: "position \<Rightarrow> string \<Rightarrow> position list" where
  "match_bytes p bs =
     (if bs \<noteq> [] \<and> prefix bs (snd p) then [(Some (last bs), drop (length bs) (snd p))] else [])"

fun match_at :: "regex \<Rightarrow> position \<Rightarrow> position list" where
  "match_at Empty p = [p]"
| "match_at (Rune alts) p = concat (map (match_bytes p) alts)"
| "match_at (Seq r1 r2) p = concat (map (match_at r2) (match_at r1 p))"
| "match_at (Alt r1 r2) p = match_at r1 p @ match_at r2 p"
| "match_at (Opt r) p = match_at r p @ [p]"
| "match_at BeginText p = (if fst p = None then [p] else [])"
| "match_at EndText p = (if snd p = [] then [p] else [])"
| "match_at WordBoundary p = (if word_before p \<noteq> word_after p then [p] else [])"

text \<open>An unanchored search: a match may start at any position of the text.\<close>

fun search :: "regex \<Rightarrow> char option \<Rightarrow> string \<Rightarrow> bool" where
  "search r prev [] = (match_at r (prev, []) \<noteq> [])"
| "search r prev (c # cs) = (match_at r (prev, c # cs) \<noteq> [] \<or> search r (Some c) cs)"

definition MatchString :: "regex \<Rightarrow> string \<Rightarrow> bool" where
  "MatchString r s = search r None s"

text \<open>
  Case folding under \<open>(?i)\<close> follows Unicode simple folding: a letter matches both of
  its ASCII cases, and for \<open>s\<close> also U+017F (bytes C5 BF), for \<open>k\<close> also U+212A
  (bytes E2 84 AA). Every other byte stands for itself.
\<close>

definition upper_of :: "char \<Rightarrow> char option" where
  "upper_of c = map_of (zip ''abcdefghijklmnopqrstuvwxyz'' ''ABCDEFGHIJKLMNOPQRSTUVWXYZ'') c"

definition fold_case :: "char \<Rightarrow> string list" where
  "fold_case c =
     (case upper_of c of
        None \<Rightarrow> [[c]]
      | Some u \<Rightarrow>
          [[c], [u]] @
          (if c = CHR ''s'' then [[CHR 0xC5, CHR 0xBF]]
           else if c = CHR ''k'' then [[CHR 0xE2, CHR 0x84, CHR 0xAA]] else []))"

text \<open>A lower-case literal string under \<open>(?i)\<close>.\<close>

fun istr :: "string \<Rightarrow> regex" where
  "istr [] = Empty"
| "istr [c] = Rune (fold_case c)"
| "istr (c # cs) = Seq (Rune (fold_case c)) (istr cs)"

definition alts :: "string list \<Rightarrow> regex \<Rightarrow> regex" where
  "alts ws r = foldr (\<lambda>w. Alt (istr w)) ws r"

text \<open>\<^verbatim>\<open>(?i)\bg?zip\b\<close>\<close>

definition kCompressedTypes :: regex where
  "kCompressedTypes = Seq WordBoundary (Seq (Opt (istr ''g'')) (Seq (istr ''zip'') WordBoundary))"

text \<open>\<^verbatim>\<open>(?i)(^text)|(xml\b)|(\b(html|json|yaml)\b)\<close>\<close>

definition kGoodTypes :: regex where
  "kGoodTypes =
     Alt (Seq BeginText (istr ''text''))
    (Alt (Seq (istr ''xml'') WordBoundary)
         (Seq WordBoundary (Seq (alts [''html'', ''json''] (istr ''yaml'')) WordBoundary)))"

text \<open>\<^verbatim>\<open>(?i)^(audio|image|video)/\<close>\<close>

definition kBadTypes :: regex where
  "kBadTypes = Seq BeginText (Seq (alts [''audio'', ''image''] (istr ''video'')) (istr ''/''))"

text \<open>\<^verbatim>\<open>(?i)\.(zip|t?gz|rar|7z|jpe?g|png|gif|svgz|mp3|m4a|ogg|wav|aiff|mp4|mov|avi|theora)$\<close>\<close>

definition kBadFilenames :: regex where
  "kBadFilenames =
     Seq (istr ''.'')
    (Seq (Alt (istr ''zip'')
         (Alt (Seq (Opt (istr ''t'')) (istr ''gz''))
         (Alt (istr ''rar'')
         (Alt (istr ''7z'')
         (Alt (Seq (istr ''jp'') (Seq (Opt (istr ''e'')) (istr ''g'')))
              (alts [''png'', ''gif'', ''svgz'', ''mp3'', ''m4a'', ''ogg'', ''wav'', ''aiff'',
                     ''mp4'', ''mov'', ''avi''] (istr ''theora'')))))))
          EndText)"

definition Compressible :: "Attachment \<Rightarrow> bool" where
  "Compressible a =
     (if snd (as_string (index (meta a) ''encoding'')) \<or> deltaSource a \<noteq> '''' then False
      else if MatchString kBadFilenames (Name a) then False
      else (let contentType = ContentType a in
            if contentType \<noteq> '''' then
              \<not> MatchString kCompressedTypes contentType \<and>
              (MatchString kGoodTypes contentType \<or> \<not> MatchString kBadTypes contentType)
            else True))"

section \<open>Helpers\<close>

definition SHA1DigestKey :: "extern \<Rightarrow> bytes \<Rightarrow> AttachmentKey" where
  "SHA1DigestKey x data = ''sha1-'' @ base64_EncodeToString x (sha1_Sum x (contents data))"

definition Attachments :: "Body \<Rightarrow> gomap option" where
  "Attachments body = as_map (index body ''_attachments'')"

definition attachmentKeyToDocKey :: "AttachmentKey \<Rightarrow> string" where
  "attachmentKeyToDocKey key = ''_sync:att:'' @ key"

definition decodeData :: "extern \<Rightarrow> any \<Rightarrow> bytes \<times> error option" where
  "decodeData x data =
     (case data of
        VBytes b \<Rightarrow> (b, None)
      | VString s \<Rightarrow> base64_DecodeString x s
      | _ \<Rightarrow> (None, Some (HTTPErrorf 400 ''invalid attachment data (type %T)'' [data])))"

text \<open>\<open>range\<close> over a slice or a map that may be nil: nil has no elements.\<close>

definition elems :: "'a list option \<Rightarrow> 'a list" where
  "elems s = (case s of None \<Rightarrow> [] | Some xs \<Rightarrow> xs)"

section \<open>The database and its collaborators\<close>

text \<open>
  The methods \<open>db.Bucket.GetRaw\<close>, \<open>db.Bucket.AddRaw\<close>, \<open>db.getCachedAttachmentZDelta\<close>,
  \<open>db.generateAttachmentZDelta\<close> and \<open>db.getAvailableRev\<close> are not under src and are
  parameters of the model. They act on the state \<open>'w\<close> of what the bucket holds (blobs,
  cached deltas, revisions), about which nothing is assumed but this: the three lookups
  read the state and leave it as it is, while a write and a delta generation (which may
  fill the delta cache) return a new one. A fallible method returns a sum: with an error
  the bytes are nil. \<open>getAvailableRev\<close> returns the parent body or nil; the source drops
  its error.
\<close>

record ('w, 'd) collaborators =
  GetRaw :: "'w \<Rightarrow> string \<Rightarrow> error + bytes"
  AddRaw :: "'w \<Rightarrow> string \<Rightarrow> bytes \<Rightarrow> (error + bool) \<times> 'w"
  getCachedAttachmentZDelta :: "'w \<Rightarrow> AttachmentKey \<Rightarrow> AttachmentKey \<Rightarrow> bytes"
  generateAttachmentZDelta ::
    "'w \<Rightarrow> bytes \<Rightarrow> bytes \<Rightarrow> AttachmentKey \<Rightarrow> AttachmentKey \<Rightarrow> bytes \<times> 'w"
  getAvailableRev :: "'w \<Rightarrow> 'd \<Rightarrow> string \<Rightarrow> Body option"

text \<open>
  The calls made to the collaborators are recorded in order, so that "is never invoked"
  and "performs no write" can be stated.
\<close>

datatype call =
    GetRawCall string
  | AddRawCall string bytes
  | CachedZDeltaCall AttachmentKey AttachmentKey
  | GenerateZDeltaCall bytes bytes AttachmentKey AttachmentKey
  | AvailableRevCall string

record 'w Database =
  Bucket :: 'w
  calls :: "call list"

definition Bucket_GetRaw ::
  "('w, 'd) collaborators \<Rightarrow> 'w Database \<Rightarrow> string \<Rightarrow> (error + bytes) \<times> 'w Database" where
  "Bucket_GetRaw c db k = (GetRaw c (Bucket db) k, db\<lparr>calls := calls db @ [GetRawCall k]\<rparr>)"

definition Bucket_AddRaw ::
  "('w, 'd) collaborators \<Rightarrow> 'w Database \<Rightarrow> string \<Rightarrow> bytes \<Rightarrow> (error + bool) \<times> 'w Database" where
  "Bucket_AddRaw c db k v =
     (let (r, w) = AddRaw c (Bucket db) k v
      in (r, \<lparr>Bucket = w, calls = calls db @ [AddRawCall k v]\<rparr>))"

definition db_getCachedAttachmentZDelta ::
  "('w, 'd) collaborators \<Rightarrow> 'w Database \<Rightarrow> AttachmentKey \<Rightarrow> AttachmentKey \<Rightarrow> bytes \<times> 'w Database" where
  "db_getCachedAttachmentZDelta c db sourceKey key =
     (getCachedAttachmentZDelta c (Bucket db) sourceKey key,
      db\<lparr>calls := calls db @ [CachedZDeltaCall sourceKey key]\<rparr>)"

definition db_generateAttachmentZDelta ::
  "('w, 'd) collaborators \<Rightarrow> 'w Database \<Rightarrow> bytes \<Rightarrow> bytes \<Rightarrow> AttachmentKey \<Rightarrow> AttachmentKey
     \<Rightarrow> bytes \<times> 'w Database" where
  "db_generateAttachmentZDelta c db src target sourceKey key =
     (let (r, w) = generateAttachmentZDelta c (Bucket db) src target sourceKey key
      in (r, \<lparr>Bucket = w, calls = calls db @ [GenerateZDeltaCall src target sourceKey key]\<rparr>))"

definition db_getAvailableRev ::
  "('w, 'd) collaborators \<Rightarrow> 'w Database \<Rightarrow> 'd \<Rightarrow> string \<Rightarrow> Body option \<times> 'w Database" where
  "db_getAvailableRev c db doc revid =
     (getAvailableRev c (Bucket db) doc revid, db\<lparr>calls := calls db @ [AvailableRevCall revid]\<rparr>)"

section \<open>Loading attachments\<close>

definition GetAttachment ::
  "('w, 'd) collaborators \<Rightarrow> 'w Database \<Rightarrow> AttachmentKey \<Rightarrow> (error + bytes) \<times> 'w Database" where
  "GetAttachment c db key = Bucket_GetRaw c db (attachmentKeyToDocKey key)"

text \<open>
  A loop of the source either returns from the function or runs to its end (or to a
  \<open>break\<close>), leaving the variables it assigned.
\<close>

datatype ('r, 'v) loop = Return 'r | Done 'v

type_synonym delta_result = "bytes \<times> AttachmentKey \<times> error option"

text \<open>
  The first loop of \<open>GetAttachmentMaybeAsDelta\<close>. Its loop variable is the named result
  \<open>sourceKey\<close>; \<open>result\<close> is nil whenever the loop goes on, and \<open>err\<close> is nil
  until \<open>GetAttachment\<close> sets it.
\<close>

fun cachedDeltaLoop ::
  "('w, 'd) collaborators \<Rightarrow> AttachmentKey \<Rightarrow> AttachmentKey list \<Rightarrow> AttachmentKey \<Rightarrow> 'w Database
     \<Rightarrow> (delta_result, AttachmentKey) loop \<times> 'w Database" where
  "cachedDeltaLoop c key [] sourceKey db = (Done sourceKey, db)"
| "cachedDeltaLoop c key (sk # rest) sourceKey db =
     (let (result, db) = db_getCachedAttachmentZDelta c db sk key in
      if result \<noteq> None then
        (if len result = 0 then
           (let (r, db) = GetAttachment c db key
            in (Return (case r of Inl err \<Rightarrow> (None, '''', Some err)
                                | Inr result \<Rightarrow> (result, '''', None)), db))
         else (Return (result, sk, None), db))
      else cachedDeltaLoop c key rest sk db)"

text \<open>The second loop; \<open>Done\<close> is both the \<open>break\<close> and the end of the candidates.\<close>

fun generateDeltaLoop ::
  "('w, 'd) collaborators \<Rightarrow> AttachmentKey \<Rightarrow> bytes \<Rightarrow> AttachmentKey list \<Rightarrow> 'w Database
     \<Rightarrow> (delta_result, unit) loop \<times> 'w Database" where
  "generateDeltaLoop c key target [] db = (Done (), db)"
| "generateDeltaLoop c key target (sk # rest) db =
     (let (r, db) = Bucket_GetRaw c db (attachmentKeyToDocKey sk);
          src = (case r of Inl _ \<Rightarrow> None | Inr src \<Rightarrow> src) in
      if src \<noteq> None then
        (let (result, db) = db_generateAttachmentZDelta c db src target sk key in
         if result \<noteq> None then
           (if len result = 0 then (Done (), db)
            else (Return (result, sk, None), db))
         else generateDeltaLoop c key target rest db)
      else generateDeltaLoop c key target rest db)"

definition GetAttachmentMaybeAsDelta ::
  "('w, 'd) collaborators \<Rightarrow> 'w Database \<Rightarrow> AttachmentKey \<Rightarrow> AttachmentKey list
     \<Rightarrow> delta_result \<times> 'w Database" where
  "GetAttachmentMaybeAsDelta c db key sourceKeys =
     (case cachedDeltaLoop c key sourceKeys '''' db of
        (Return r, db) \<Rightarrow> (r, db)
      | (Done sourceKey, db) \<Rightarrow>
          (case GetAttachment c db key of
             (Inl err, db) \<Rightarrow> ((None, sourceKey, Some err), db)
           | (Inr target, db) \<Rightarrow>
               (case generateDeltaLoop c key target sourceKeys db of
                  (Return r, db) \<Rightarrow> (r, db)
                | (Done _, db) \<Rightarrow> ((target, '''', None), db))))"

definition LoadData ::
  "('w, 'd) collaborators \<Rightarrow> 'w Database \<Rightarrow> Attachment \<Rightarrow> bool
     \<Rightarrow> (bytes \<times> error option) \<times> Attachment \<times> 'w Database" where
  "LoadData c db a deltaOK =
     (let data = Data a in
      if data = None then
        (let sourceKeys =
               (if deltaOK \<and> possibleDeltaSources a \<noteq> None \<and> Compressible a
                then possibleDeltaSources a else None);
             ((data, deltaSrc, err), db) = GetAttachmentMaybeAsDelta c db (Key a) (elems sourceKeys)
         in if err = None then
              (let m = AList.update ''data'' (VBytes data) (meta a);
                   m = (if deltaSrc \<noteq> '''' then AList.update ''zdeltasrc'' (VString deltaSrc) m
                        else m);
                   m = AList.delete ''stub'' m
               in ((data, err), a\<lparr>possibleDeltaSources := None, deltaSource := deltaSrc, meta := m\<rparr>, db))
            else ((data, err), a, db))
      else ((data, None), a, db))"

text \<open>
  Modelled from the spec: \<open>Body.ImmutableAttachmentsCopy\<close> is not under src. The spec
  has it produce a snapshot of the body that can be changed in place without touching
  the original; bodies are values here, so the copy is the body.
\<close>

definition ImmutableAttachmentsCopy :: "Body \<Rightarrow> Body" where
  "ImmutableAttachmentsCopy body = body"

text \<open>A type assertion in its one-result form panics when the value has another type.\<close>

datatype panic = InterfaceConversion any

fun findAttachmentsLoop ::
  "extern \<Rightarrow> int \<Rightarrow> (string \<rightharpoonup> AttachmentKey) \<Rightarrow> gomap \<Rightarrow> Attachment list
     \<Rightarrow> panic + Attachment list" where
  "findAttachmentsLoop x minRevpos deltaSrcKeys [] attachments = Inr attachments"
| "findAttachmentsLoop x minRevpos deltaSrcKeys ((name, v) # rest) attachments =
     (case as_map v of
        None \<Rightarrow> Inl (InterfaceConversion v)
      | Some m \<Rightarrow>
          (let (revpos, ok) = ToInt64 x (index m ''revpos'') in
           if ok \<and> revpos \<ge> minRevpos then
             (let possibleDeltas = (case deltaSrcKeys name of Some src \<Rightarrow> Some [src] | None \<Rightarrow> None)
              in findAttachmentsLoop x minRevpos deltaSrcKeys rest
                   (attachments @
                    [\<lparr>Name = name, followingData = None, possibleDeltaSources = possibleDeltas,
                      deltaSource = '''', meta = m\<rparr>]))
           else findAttachmentsLoop x minRevpos deltaSrcKeys rest attachments))"

definition findAttachments ::
  "extern \<Rightarrow> Body \<Rightarrow> int \<Rightarrow> (string \<rightharpoonup> AttachmentKey) \<Rightarrow> panic + (Body \<times> Attachment list)" where
  "findAttachments x body minRevpos deltaSrcKeys =
     (let body = ImmutableAttachmentsCopy body in
      case findAttachmentsLoop x minRevpos deltaSrcKeys (elems (Attachments body)) [] of
        Inl p \<Rightarrow> Inl p
      | Inr attachments \<Rightarrow> Inr (body, attachments))"

section \<open>Storing attachments\<close>

definition storeAttachment ::
  "extern \<Rightarrow> ('w, 'd) collaborators \<Rightarrow> 'w Database \<Rightarrow> bytes
     \<Rightarrow> (AttachmentKey \<times> error option) \<times> 'w Database" where
  "storeAttachment x c db attachment =
     (let key = SHA1DigestKey x attachment;
          (r, db) = Bucket_AddRaw c db (attachmentKeyToDocKey key) attachment
      in ((key, case r of Inl err \<Rightarrow> Some err | Inr _ \<Rightarrow> None), db))"

text \<open>The normalised record that replaces an entry with inline data.\<close>

definition newMeta :: "gomap \<Rightarrow> AttachmentKey \<Rightarrow> int \<Rightarrow> bytes \<Rightarrow> gomap" where
  "newMeta m key generation attachment =
     (let n = [(''stub'', VBool True), (''digest'', VString key), (''revpos'', VInt generation)];
          n = (case as_string (index m ''content_type'') of
                 (contentType, True) \<Rightarrow> AList.update ''content_type'' (VString contentType) n
               | (_, False) \<Rightarrow> n);
          encoding = index m ''encoding''
      in if encoding \<noteq> VNil then
           (let n = AList.update ''encoding'' encoding n;
                n = AList.update ''encoded_length'' (VInt (int (len attachment))) n
            in case index m ''length'' of
                 VFloat64 l \<Rightarrow> AList.update ''length'' (VFloat64 l) n
               | _ \<Rightarrow> n)
         else AList.update ''length'' (VInt (int (len attachment))) n)"

text \<open>
  The loop of \<open>storeAttachments\<close> over the entries still to visit. It carries what the
  source mutates: the attachment map of the body, the lazily fetched attachments of the
  parent revision (\<open>None\<close> while nil) and the database. An error returns from the
  function and leaves the changes made so far.
\<close>

fun storeAttachmentsLoop ::
  "extern \<Rightarrow> ('w, 'd) collaborators \<Rightarrow> 'd \<Rightarrow> int \<Rightarrow> string \<Rightarrow> gomap
     \<Rightarrow> gomap \<Rightarrow> gomap option \<Rightarrow> 'w Database
     \<Rightarrow> error option \<times> gomap \<times> gomap option \<times> 'w Database" where
  "storeAttachmentsLoop x c doc generation parentRev [] atts parentAttachments db =
     (None, atts, parentAttachments, db)"
| "storeAttachmentsLoop x c doc generation parentRev ((name, v) # rest) atts parentAttachments db =
     (case as_map v of
        None \<Rightarrow> (Some (HTTPErrorf 400 ''Invalid _attachments'' []), atts, parentAttachments, db)
      | Some m \<Rightarrow>
          (case map_of m ''data'' of
             Some data \<Rightarrow>
               (case decodeData x data of
                  (_, Some err) \<Rightarrow> (Some err, atts, parentAttachments, db)
                | (attachment, None) \<Rightarrow>
                    (case storeAttachment x c db attachment of
                       ((_, Some err), db) \<Rightarrow> (Some err, atts, parentAttachments, db)
                     | ((key, None), db) \<Rightarrow>
                         storeAttachmentsLoop x c doc generation parentRev rest
                           (AList.update name (VMap (newMeta m key generation attachment)) atts)
                           parentAttachments db))
           | None \<Rightarrow>
               if index m ''stub'' \<noteq> VBool True then
                 (Some (HTTPErrorf 400 ''Missing data of attachment %q'' [VString name]),
                  atts, parentAttachments, db)
               else if (case ToInt64 x (index m ''revpos'') of (revpos, ok) \<Rightarrow> \<not> ok \<or> revpos < 1) then
                 (Some (HTTPErrorf 400 ''Missing/invalid revpos in stub attachment %q'' [VString name]),
                  atts, parentAttachments, db)
               else
                 (let (parentAttachments, db) =
                        (if parentAttachments = None then
                           (case db_getAvailableRev c db doc parentRev of
                              (Some parent, db) \<Rightarrow> (Attachments parent, db)
                            | (None, db) \<Rightarrow> (None, db))
                         else (parentAttachments, db))
                  in case parentAttachments of
                       Some pa \<Rightarrow>
                         (let parentAttachment = index pa name in
                          storeAttachmentsLoop x c doc generation parentRev rest
                            (if parentAttachment \<noteq> VNil then AList.update name parentAttachment atts
                             else atts)
                            parentAttachments db)
                     | None \<Rightarrow>
                         if index m ''digest'' = VNil then
                           (Some (HTTPErrorf 400 ''Missing digest in stub attachment %q'' [VString name]),
                            atts, parentAttachments, db)
                         else storeAttachmentsLoop x c doc generation parentRev rest
                                atts parentAttachments db)))"

text \<open>
  \<open>storeAttachments\<close> returns its error; the body it was given is changed in place, so
  the model returns the body as well.
\<close>

definition storeAttachments ::
  "extern \<Rightarrow> ('w, 'd) collaborators \<Rightarrow> 'w Database \<Rightarrow> 'd \<Rightarrow> Body \<Rightarrow> int \<Rightarrow> string
     \<Rightarrow> error option \<times> Body \<times> 'w Database" where
  "storeAttachments x c db doc body generation parentRev =
     (let atts = Attachments body in
      if atts = None \<and> index body ''_attachments'' \<noteq> VNil then
        (Some (HTTPErrorf 400 ''Invalid _attachments'' []), body, db)
      else
        (case atts of
           None \<Rightarrow> (None, body, db)
         | Some m \<Rightarrow>
             (case storeAttachmentsLoop x c doc generation parentRev m m None db of
                (err, m, _, db) \<Rightarrow> (err, AList.update ''_attachments'' (VMap m) body, db))))"

section \<open>Vocabulary of the statements\<close>

text \<open>The candidates \<open>LoadData\<close> hands to \<open>GetAttachmentMaybeAsDelta\<close>.\<close>

definition offered :: "Attachment \<Rightarrow> bool \<Rightarrow> AttachmentKey list" where
  "offered a deltaOK =
     elems (if deltaOK \<and> possibleDeltaSources a \<noteq> None \<and> Compressible a
            then possibleDeltaSources a else None)"

text \<open>The delta-cache lookups and the blob fetches for a list of candidates, in order.\<close>

definition cache_calls :: "AttachmentKey \<Rightarrow> AttachmentKey list \<Rightarrow> call list" where
  "cache_calls key sourceKeys = map (\<lambda>s. CachedZDeltaCall s key) sourceKeys"

definition fetch_calls :: "AttachmentKey list \<Rightarrow> call list" where
  "fetch_calls sourceKeys = map (\<lambda>s. GetRawCall (attachmentKeyToDocKey s)) sourceKeys"

text \<open>A candidate whose raw blob the bucket does not return.\<close>

definition missing :: "('w, 'd) collaborators \<Rightarrow> 'w \<Rightarrow> AttachmentKey \<Rightarrow> bool" where
  "missing c w s =
     ((case GetRaw c w (attachmentKeyToDocKey s) of Inl _ \<Rightarrow> None | Inr b \<Rightarrow> b) = None)"

text \<open>
  A run of the second loop over candidates none of which decides the result: a candidate
  is passed over when its raw blob is missing, or when its blob is found and the codec
  returns nil for it. The value is the bucket after these candidates and the calls made
  for them, in order; it is \<open>None\<close> as soon as the codec returns a delta (empty or not)
  for one of them.
\<close>

fun passed_over ::
  "('w, 'd) collaborators \<Rightarrow> AttachmentKey \<Rightarrow> bytes \<Rightarrow> AttachmentKey list \<Rightarrow> 'w
     \<Rightarrow> ('w \<times> call list) option" where
  "passed_over c key target [] w = Some (w, [])"
| "passed_over c key target (s # rest) w =
     (let src = (case GetRaw c w (attachmentKeyToDocKey s) of Inl _ \<Rightarrow> None | Inr b \<Rightarrow> b) in
      if src = None then
        map_option (\<lambda>(w', cs). (w', GetRawCall (attachmentKeyToDocKey s) # cs))
          (passed_over c key target rest w)
      else
        (case generateAttachmentZDelta c w src target s key of
           (None, w1) \<Rightarrow>
             map_option
               (\<lambda>(w', cs). (w', GetRawCall (attachmentKeyToDocKey s) #
                                 GenerateZDeltaCall src target s key # cs))
               (passed_over c key target rest w1)
         | (Some d, w1) \<Rightarrow> None))"

text \<open>
  An entry of the attachment map whose \<open>revpos\<close> \<open>base.ToInt64\<close> accepts and finds
  at least \<open>n\<close>, and the handle that \<open>findAttachments\<close> makes for an entry.
\<close>

definition revpos_at_least :: "extern \<Rightarrow> int \<Rightarrow> any \<Rightarrow> bool" where
  "revpos_at_least x n v =
     (case ToInt64 x (index (elems (as_map v)) ''revpos'') of (revpos, ok) \<Rightarrow> ok \<and> n \<le> revpos)"

definition handle_for :: "(string \<rightharpoonup> AttachmentKey) \<Rightarrow> string \<times> any \<Rightarrow> Attachment" where
  "handle_for deltaSrcKeys e =
     \<lparr>Name = fst e, followingData = None,
      possibleDeltaSources = map_option (\<lambda>src. [src]) (deltaSrcKeys (fst e)),
      deltaSource = '''', meta = elems (as_map (snd e))\<rparr>"

text \<open>The writes to the content store among the calls made.\<close>

definition store_writes :: "call list \<Rightarrow> call list" where
  "store_writes cs = filter (\<lambda>c. case c of AddRawCall _ _ \<Rightarrow> True | _ \<Rightarrow> False) cs"

section \<open>An in-memory bucket for the examples\<close>

text \<open>
  Blobs by document key, cached deltas by source and target key, revision bodies by
  revision id, and a table of what the delta codec produces for a pair of keys
  (no entry: the codec fails and returns nil). A generated delta is put in the cache.
\<close>

record mem =
  blobs :: "(string \<times> byte list) list"
  deltas :: "((AttachmentKey \<times> AttachmentKey) \<times> byte list) list"
  codec :: "((AttachmentKey \<times> AttachmentKey) \<times> byte list) list"
  revs :: "(string \<times> Body) list"

definition in_memory :: "(mem, unit) collaborators" where
  "in_memory =
     \<lparr>GetRaw = (\<lambda>w k. case map_of (blobs w) k of
                         None \<Rightarrow> Inl (OtherError ''key not found'')
                       | Some b \<Rightarrow> Inr (Some b)),
      AddRaw = (\<lambda>w k v. if map_of (blobs w) k = None
                         then (Inr True, w\<lparr>blobs := blobs w @ [(k, contents v)]\<rparr>)
                         else (Inr False, w)),
      getCachedAttachmentZDelta = (\<lambda>w s t. map_of (deltas w) (s, t)),
      generateAttachmentZDelta = (\<lambda>w src target s t.
         case map_of (codec w) (s, t) of
           None \<Rightarrow> (None, w)
         | Some d \<Rightarrow> (Some d, w\<lparr>deltas := deltas w @ [((s, t), d)]\<rparr>)),
      getAvailableRev = (\<lambda>w doc revid. map_of (revs w) revid)\<rparr>"

definition opened :: "mem \<Rightarrow> mem Database" where
  "opened w = \<lparr>Bucket = w, calls = []\<rparr>"

definition store_T :: "(string \<times> byte list) list" where
  "store_T = [(''_sync:att:sha1-T'', [1, 2, 3, 4]), (''_sync:att:sha1-B'', [1, 2, 3])]"

text \<open>A stub for a text file whose content is stored under \<open>sha1-T\<close>.\<close>

definition notes_txt :: Attachment where
  "notes_txt =
     \<lparr>Name = ''notes.txt'', followingData = None, possibleDeltaSources = Some [''sha1-A''],
      deltaSource = '''',
      meta = [(''digest'', VString ''sha1-T''), (''stub'', VBool True), (''revpos'', VFloat64 2)]\<rparr>"

definition empty_mem :: mem where
  "empty_mem = \<lparr>blobs = [], deltas = [], codec = [], revs = []\<rparr>"

definition cached_A_T :: mem where
  "cached_A_T = \<lparr>blobs = store_T, deltas = [((''sha1-A'', ''sha1-T''), [9, 9])], codec = [], revs = []\<rparr>"

text \<open>
  A bucket that also stores a blob under \<open>sha1-A\<close>, with a codec that gives the delta
  \<open>d\<close> from \<open>sha1-B\<close> to \<open>sha1-T\<close> and nil for every other pair.
\<close>

definition store_TAB :: "(string \<times> byte list) list" where
  "store_TAB = store_T @ [(''_sync:att:sha1-A'', [1, 2])]"

definition codec_B :: "byte list \<Rightarrow> mem" where
  "codec_B d = \<lparr>blobs = store_TAB, deltas = [], codec = [((''sha1-B'', ''sha1-T''), d)], revs = []\<rparr>"

text \<open>
  The examples need values for the functions taken from outside. \<open>ToInt64\<close> converts a
  Go \<open>int\<close>, truncates a float64 (the type of a number decoded from JSON) and rejects
  what is not a number; \<open>%q\<close> puts a name of plain printable characters between double
  quotes. The digest, the encoder and the decoder are stand-ins: no example depends on
  what they return.
\<close>

definition plain :: extern where
  "plain =
     \<lparr>sha1_Sum = (\<lambda>bs. bs),
      base64_EncodeToString = map (\<lambda>b. CHR ''A''),
      base64_DecodeString = (\<lambda>s. (None, Some (OtherError ''illegal base64 data''))),
      Sprintf_q = (\<lambda>s. [CHR 0x22] @ s @ [CHR 0x22]),
      ToInt64 = (\<lambda>v. case v of
                          VInt n \<Rightarrow> (n, True)
                        | VFloat64 q \<Rightarrow> (if q < 0 then - \<lfloor>- q\<rfloor> else \<lfloor>q\<rfloor>, True)
                        | _ \<Rightarrow> (0, False))\<rparr>"

text \<open>Handles: a delta already loaded for \<open>notes.txt\<close>, and a stub with a name and a content type.\<close>

definition delta_of_notes :: Attachment where
  "delta_of_notes =
     \<lparr>Name = ''notes.txt'', followingData = None, possibleDeltaSources = None,
      deltaSource = ''sha1-A'',
      meta = [(''digest'', VString ''sha1-T''), (''content_type'', VString ''text/plain''),
              (''encoding'', VString ''gzip''), (''data'', VBytes (Some [9, 9]))]\<rparr>"

definition named :: "string \<Rightarrow> string \<Rightarrow> Attachment" where
  "named name contentType =
     \<lparr>Name = name, followingData = None, possibleDeltaSources = None, deltaSource = '''',
      meta = [(''content_type'', VString contentType), (''stub'', VBool True)]\<rparr>"

text \<open>A handle whose metadata record holds the value \<open>v\<close> in its \<open>encoding\<close> field.\<close>

definition with_encoding :: "any \<Rightarrow> Attachment \<Rightarrow> Attachment" where
  "with_encoding v a = a\<lparr>meta := (''encoding'', v) # meta a\<rparr>"

text \<open>Bodies for discovery and for ingestion, and a parent revision.\<close>

definition stored_doc :: Body where
  "stored_doc =
     [(''_id'', VString ''doc1''),
      (''_attachments'', VMap
         [(''old.txt'', VMap [(''stub'', VBool True), (''digest'', VString ''sha1-B''), (''revpos'', VFloat64 1)]),
          (''new.txt'', VMap [(''stub'', VBool True), (''digest'', VString ''sha1-T''), (''revpos'', VFloat64 3)]),
          (''odd.txt'', VMap [(''stub'', VBool True), (''digest'', VString ''sha1-T'')])])]"

definition scalar_entry :: Body where
  "scalar_entry =
     [(''_attachments'', VMap
         [(''a'', VFloat64 5),
          (''b'', VMap [(''stub'', VBool True), (''digest'', VString ''sha1-T''), (''revpos'', VFloat64 3)])])]"

definition inline_then_scalar :: Body where
  "inline_then_scalar =
     [(''_attachments'', VMap [(''a.txt'', VMap [(''data'', VBytes (Some [104, 105]))]),
                               (''b.txt'', VFloat64 5)])]"

definition scalar_then_inline :: Body where
  "scalar_then_inline =
     [(''_attachments'', VMap [(''b.txt'', VFloat64 5),
                               (''a.txt'', VMap [(''data'', VBytes (Some [104, 105]))])])]"

definition parent_body :: Body where
  "parent_body =
     [(''_attachments'', VMap
         [(''other.txt'', VMap [(''stub'', VBool True), (''digest'', VString ''sha1-T''),
                               (''revpos'', VFloat64 1)])])]"

definition with_parent :: mem where
  "with_parent = \<lparr>blobs = store_T, deltas = [], codec = [], revs = [(''1-abc'', parent_body)]\<rparr>"

definition stub_body :: Body where
  "stub_body =
     [(''_attachments'', VMap [(''photo.png'', VMap [(''stub'', VBool True), (''revpos'', VFloat64 2)])])]"

section \<open>Content keys\<close>

text \<open>
  Claim C9. Equal byte sequences have equal keys (a nil and an empty slice are the same
  sequence); the key is the string \<open>sha1-\<close> followed by the standard base64 encoding of
  the SHA-1 digest of the bytes; and the storage address of a key is the key prefixed with
  \<open>_sync:att:\<close>.
\<close>

theorem SHA1DigestKey_content_key:
  "(contents b1 = contents b2 \<longrightarrow> SHA1DigestKey x b1 = SHA1DigestKey x b2) \<and>
   SHA1DigestKey x b = ''sha1-'' @ base64_EncodeToString x (sha1_Sum x (contents b)) \<and>
   attachmentKeyToDocKey k = ''_sync:att:'' @ k"
  by (simp add: SHA1DigestKey_def attachmentKeyToDocKey_def)

theorem SHA1DigestKey_content_key_witness:
  "contents None = contents (Some []) \<and>
   SHA1DigestKey plain None = SHA1DigestKey plain (Some []) \<and>
   attachmentKeyToDocKey ''sha1-2jmj7l5rSw0yVb/vlWAYkK/YBwk='' =
     ''_sync:att:sha1-2jmj7l5rSw0yVb/vlWAYkK/YBwk=''"
  using SHA1DigestKey_content_key [of None "Some []" plain None
      "''sha1-2jmj7l5rSw0yVb/vlWAYkK/YBwk=''"]
  by (simp add: contents_def)

section \<open>Headers\<close>

text \<open>
  Claim C8. With a delta source \<open>S\<close> selected, the headers of a nested part
  (\<open>full\<close> false) hold \<open>Content-Encoding: zdelta\<close>, \<open>X-Delta-Source: S\<close> and a
  \<open>Content-Disposition\<close>. In general \<open>Content-Encoding\<close> is \<open>zdelta\<close> when a delta
  source is selected and comes from the \<open>encoding\<close> field only when none is and the field
  is a non-empty string; \<open>Content-Type\<close> is there exactly when \<open>full\<close> is true and the
  content type is known; \<open>Content-Disposition\<close> exactly when \<open>full\<close> is false.
\<close>

theorem Headers_rules:
  "(deltaSource a \<noteq> '''' \<longrightarrow>
      Headers x a False ''Content-Encoding'' = Some [''zdelta''] \<and>
      Headers x a False ''X-Delta-Source'' = Some [deltaSource a] \<and>
      Headers x a False ''Content-Disposition'' =
        Some [''attachment; filename='' @ Sprintf_q x (Name a)]) \<and>
   Headers x a full ''Content-Encoding'' =
     (if deltaSource a \<noteq> '''' then Some [''zdelta'']
      else if fst (as_string (index (meta a) ''encoding'')) \<noteq> ''''
           then Some [fst (as_string (index (meta a) ''encoding''))] else None) \<and>
   Headers x a full ''X-Delta-Source'' =
     (if deltaSource a \<noteq> '''' then Some [deltaSource a] else None) \<and>
   Headers x a full ''Content-Type'' =
     (if full \<and> ContentType a \<noteq> '''' then Some [ContentType a] else None) \<and>
   Headers x a full ''Content-Disposition'' =
     (if full then None else Some [''attachment; filename='' @ Sprintf_q x (Name a)])"
  by (simp add: Headers_def MIMEHeader_Set_def Let_def)

theorem Headers_rules_witness:
  "deltaSource delta_of_notes \<noteq> '''' \<and>
   Headers plain delta_of_notes False ''Content-Encoding'' = Some [''zdelta''] \<and>
   Headers plain delta_of_notes False ''X-Delta-Source'' = Some [''sha1-A''] \<and>
   Headers plain delta_of_notes False ''Content-Disposition'' =
     Some [''attachment; filename='' @ [CHR 0x22] @ ''notes.txt'' @ [CHR 0x22]] \<and>
   Headers plain delta_of_notes False ''Content-Type'' = None \<and>
   Headers plain delta_of_notes True ''Content-Type'' = Some [''text/plain''] \<and>
   Headers plain delta_of_notes True ''Content-Encoding'' = Some [''zdelta''] \<and>
   Headers plain (delta_of_notes\<lparr>deltaSource := ''''\<rparr>) True ''Content-Encoding'' = Some [''gzip'']"
  using Headers_rules [of delta_of_notes plain False]
    Headers_rules [of delta_of_notes plain True]
    Headers_rules [of "delta_of_notes\<lparr>deltaSource := ''''\<rparr>" plain True]
  by (simp add: delta_of_notes_def plain_def ContentType_def index_def as_string_def)

section \<open>The classifier\<close>

lemma match_mp4: "match_at kBadFilenames (p, ''.mp4'') \<noteq> []"
  by (simp add: kBadFilenames_def alts_def fold_case_def upper_of_def match_bytes_def)

lemma search_mp4: "search kBadFilenames p (pre @ ''.mp4'')"
proof (induction pre arbitrary: p)
  case Nil
  show ?case using match_mp4 [of p] by simp
next
  case (Cons c pre)
  then show ?case by simp
qed

lemma MatchString_mp4: "suffix ''.mp4'' name \<Longrightarrow> MatchString kBadFilenames name"
  unfolding MatchString_def suffix_def using search_mp4 by blast

lemma jpeg_types:
  "\<not> MatchString kGoodTypes ''image/jpeg''" "MatchString kBadTypes ''image/jpeg''"
  by code_simp+

lemma text_types:
  "\<not> MatchString kCompressedTypes ''text/plain''" "MatchString kGoodTypes ''text/plain''"
  by code_simp+

lemma svg_types:
  "\<not> MatchString kCompressedTypes ''image/svg+xml''" "MatchString kGoodTypes ''image/svg+xml''"
  "MatchString kBadTypes ''image/svg+xml''"
  by code_simp+

lemma named_facts:
  "map_of (meta (named n t)) ''encoding'' = None" "deltaSource (named n t) = ''''"
  "ContentType (named n t) = t" "Name (named n t) = n"
  by (simp_all add: named_def ContentType_def index_def as_string_def)

lemma good_names:
  "\<not> MatchString kBadFilenames ''notes.txt''" "\<not> MatchString kBadFilenames ''logo.svg''"
  "\<not> MatchString kBadFilenames ''README''"
  by code_simp+

lemma with_encoding_facts:
  "index (meta (with_encoding v (named n t))) ''encoding'' = v"
  "deltaSource (with_encoding v (named n t)) = ''''"
  "ContentType (with_encoding v (named n t)) = t" "Name (with_encoding v (named n t)) = n"
  by (simp_all add: with_encoding_def named_def ContentType_def index_def as_string_def)

lemma named_unencoded:
  "\<not> snd (as_string (index (meta (named n t)) ''encoding''))"
  by (simp add: named_def index_def as_string_def)

lemma encoding_is_string:
  "snd (as_string (index m ''encoding'')) = (\<exists>e. map_of m ''encoding'' = Some (VString e))"
  by (auto simp add: as_string_def index_def split: option.splits any.splits)

text \<open>
  Claim C6, as the source has it. \<open>Compressible\<close> first tests whether the \<open>encoding\<close>
  field is a string, which is the case exactly when the metadata record holds a string
  there, the empty string included; a handle with such a field, or with a selected delta
  source, is never compressible. For every other handle, that is, whose \<open>encoding\<close> field
  is absent, null or of another type, and with no selected delta source: content type
  \<open>image/jpeg\<close> gives false; \<open>text/plain\<close> and \<open>image/svg+xml\<close> give true when the name
  has none of the uncompressible extensions (the test of the name comes first); a name
  ending in \<open>.mp4\<close> gives false whatever the content type; no content type and no such
  extension gives true.
\<close>

theorem Compressible_cases:
  "(snd (as_string (index (meta a) ''encoding'')) =
      (\<exists>e. map_of (meta a) ''encoding'' = Some (VString e))) \<and>
   (snd (as_string (index (meta a) ''encoding'')) \<or> deltaSource a \<noteq> '''' \<longrightarrow> \<not> Compressible a) \<and>
   (\<not> snd (as_string (index (meta a) ''encoding'')) \<and> deltaSource a = '''' \<longrightarrow>
      (ContentType a = ''image/jpeg'' \<longrightarrow> \<not> Compressible a) \<and>
      (ContentType a = ''text/plain'' \<and> \<not> MatchString kBadFilenames (Name a) \<longrightarrow> Compressible a) \<and>
      (ContentType a = ''image/svg+xml'' \<and> \<not> MatchString kBadFilenames (Name a) \<longrightarrow> Compressible a) \<and>
      (suffix ''.mp4'' (Name a) \<longrightarrow> \<not> Compressible a) \<and>
      (ContentType a = '''' \<and> \<not> MatchString kBadFilenames (Name a) \<longrightarrow> Compressible a))"
proof (intro conjI impI)
  show "snd (as_string (index (meta a) ''encoding'')) =
      (\<exists>e. map_of (meta a) ''encoding'' = Some (VString e))"
    by (rule encoding_is_string)
next
  assume "snd (as_string (index (meta a) ''encoding'')) \<or> deltaSource a \<noteq> ''''"
  then show "\<not> Compressible a" by (auto simp add: Compressible_def)
next
  assume h: "\<not> snd (as_string (index (meta a) ''encoding'')) \<and> deltaSource a = ''''"
  have C: "Compressible a =
      (\<not> MatchString kBadFilenames (Name a) \<and>
       (ContentType a \<noteq> '''' \<longrightarrow>
          \<not> MatchString kCompressedTypes (ContentType a) \<and>
          (MatchString kGoodTypes (ContentType a) \<or> \<not> MatchString kBadTypes (ContentType a))))"
    using h by (simp add: Compressible_def Let_def)
  {
    assume "ContentType a = ''image/jpeg''"
    then show "\<not> Compressible a" using jpeg_types by (simp add: C)
  }
  {
    assume "ContentType a = ''text/plain'' \<and> \<not> MatchString kBadFilenames (Name a)"
    then show "Compressible a" using text_types by (simp add: C)
  }
  {
    assume "ContentType a = ''image/svg+xml'' \<and> \<not> MatchString kBadFilenames (Name a)"
    then show "Compressible a" using svg_types by (simp add: C)
  }
  {
    assume "suffix ''.mp4'' (Name a)"
    then show "\<not> Compressible a" using MatchString_mp4 by (simp add: C)
  }
  {
    assume "ContentType a = '''' \<and> \<not> MatchString kBadFilenames (Name a)"
    then show "Compressible a" by (simp add: C)
  }
qed

text \<open>
  As stated, C6 has \<open>text/plain\<close> give true for every handle without encoding and delta
  source. A text attachment named \<open>clip.mp4\<close> is not compressible; and neither is a text
  attachment named \<open>notes.txt\<close> whose \<open>encoding\<close> field is the empty string, a handle that
  has no bad extension and names no encoding.
\<close>

theorem Compressible_cases_counterexample:
  "\<not> snd (as_string (index (meta (named ''clip.mp4'' ''text/plain'')) ''encoding'')) \<and>
   deltaSource (named ''clip.mp4'' ''text/plain'') = '''' \<and>
   ContentType (named ''clip.mp4'' ''text/plain'') = ''text/plain'' \<and>
   \<not> Compressible (named ''clip.mp4'' ''text/plain'') \<and>
   index (meta (with_encoding (VString '''') (named ''notes.txt'' ''text/plain''))) ''encoding'' =
     VString '''' \<and>
   deltaSource (with_encoding (VString '''') (named ''notes.txt'' ''text/plain'')) = '''' \<and>
   ContentType (with_encoding (VString '''') (named ''notes.txt'' ''text/plain'')) = ''text/plain'' \<and>
   \<not> MatchString kBadFilenames (Name (with_encoding (VString '''') (named ''notes.txt'' ''text/plain''))) \<and>
   \<not> Compressible (with_encoding (VString '''') (named ''notes.txt'' ''text/plain''))"
proof -
  have "MatchString kBadFilenames ''clip.mp4''" by code_simp
  then have 1: "\<not> Compressible (named ''clip.mp4'' ''text/plain'')"
    by (simp add: Compressible_def named_facts named_unencoded)
  have 2: "\<not> Compressible (with_encoding (VString '''') (named ''notes.txt'' ''text/plain''))"
    by (simp add: Compressible_def with_encoding_facts as_string_def)
  show ?thesis
    using 1 2 good_names by (simp add: named_facts named_unencoded with_encoding_facts)
qed

theorem Compressible_cases_witness:
  "\<not> Compressible (named ''photo.bin'' ''image/jpeg'') \<and>
   Compressible (named ''notes.txt'' ''text/plain'') \<and>
   Compressible (named ''logo.svg'' ''image/svg+xml'') \<and>
   Compressible (with_encoding VNil (named ''notes.txt'' ''text/plain'')) \<and>
   Compressible (with_encoding (VFloat64 1) (named ''logo.svg'' ''image/svg+xml'')) \<and>
   \<not> Compressible (named ''clip.mp4'' ''text/plain'') \<and>
   Compressible (named ''README'' '''') \<and>
   \<not> Compressible (with_encoding (VString ''gzip'') (named ''notes.txt'' ''text/plain'')) \<and>
   \<not> Compressible (with_encoding (VString '''') (named ''notes.txt'' ''text/plain'')) \<and>
   \<not> Compressible delta_of_notes"
proof -
  have 1: "\<not> Compressible (named ''photo.bin'' ''image/jpeg'')"
    using Compressible_cases [of "named ''photo.bin'' ''image/jpeg''"]
    by (simp add: named_facts named_unencoded)
  have 2: "Compressible (named ''notes.txt'' ''text/plain'')"
    using Compressible_cases [of "named ''notes.txt'' ''text/plain''"] good_names
    by (simp add: named_facts named_unencoded)
  have 10: "Compressible (named ''logo.svg'' ''image/svg+xml'')"
    using Compressible_cases [of "named ''logo.svg'' ''image/svg+xml''"] good_names
    by (simp add: named_facts named_unencoded)
  have 3: "Compressible (with_encoding VNil (named ''notes.txt'' ''text/plain''))"
    using Compressible_cases [of "with_encoding VNil (named ''notes.txt'' ''text/plain'')"] good_names
    by (simp add: with_encoding_facts as_string_def)
  have 4: "Compressible (with_encoding (VFloat64 1) (named ''logo.svg'' ''image/svg+xml''))"
    using Compressible_cases [of "with_encoding (VFloat64 1) (named ''logo.svg'' ''image/svg+xml'')"] good_names
    by (simp add: with_encoding_facts as_string_def)
  have 5: "\<not> Compressible (named ''clip.mp4'' ''text/plain'')"
    using Compressible_cases [of "named ''clip.mp4'' ''text/plain''"]
    by (simp add: named_facts named_unencoded suffix_def)
  have 6: "Compressible (named ''README'' '''')"
    using Compressible_cases [of "named ''README'' ''''"] good_names
    by (simp add: named_facts named_unencoded)
  have 7: "\<not> Compressible (with_encoding (VString ''gzip'') (named ''notes.txt'' ''text/plain''))"
    using Compressible_cases [of "with_encoding (VString ''gzip'') (named ''notes.txt'' ''text/plain'')"]
    by (simp add: with_encoding_facts as_string_def)
  have 8: "\<not> Compressible (with_encoding (VString '''') (named ''notes.txt'' ''text/plain''))"
    using Compressible_cases [of "with_encoding (VString '''') (named ''notes.txt'' ''text/plain'')"]
    by (simp add: with_encoding_facts as_string_def)
  have 9: "\<not> Compressible delta_of_notes"
    using Compressible_cases [of delta_of_notes] by (simp add: delta_of_notes_def)
  show ?thesis using 1 2 3 4 5 6 7 8 9 10 by blast
qed

section \<open>The two loops of the delta resolution\<close>

lemma cachedDeltaLoop_misses:
  "\<forall>s \<in> set sourceKeys. getCachedAttachmentZDelta c (Bucket db) s key = None \<Longrightarrow>
   cachedDeltaLoop c key sourceKeys sk db =
     (Done (last (sk # sourceKeys)), db\<lparr>calls := calls db @ cache_calls key sourceKeys\<rparr>)"
proof (induction sourceKeys arbitrary: sk db)
  case Nil
  then show ?case by (simp add: cache_calls_def)
next
  case (Cons s rest)
  then show ?case
    by (simp add: cache_calls_def db_getCachedAttachmentZDelta_def)
qed

lemma cachedDeltaLoop_hit:
  assumes "\<forall>s \<in> set pre. getCachedAttachmentZDelta c (Bucket db) s key = None"
    and "getCachedAttachmentZDelta c (Bucket db) s key = Some d"
  shows "cachedDeltaLoop c key (pre @ s # post) sk db =
     (if d = [] then
        (Return (case GetRaw c (Bucket db) (attachmentKeyToDocKey key) of
                   Inl err \<Rightarrow> (None, '''', Some err) | Inr target \<Rightarrow> (target, '''', None)),
         db\<lparr>calls := calls db @ cache_calls key (pre @ [s]) @ [GetRawCall (attachmentKeyToDocKey key)]\<rparr>)
      else (Return (Some d, s, None), db\<lparr>calls := calls db @ cache_calls key (pre @ [s])\<rparr>))"
  using assms
proof (induction pre arbitrary: sk db)
  case Nil
  then show ?case
    by (simp add: cache_calls_def db_getCachedAttachmentZDelta_def len_def GetAttachment_def
        Bucket_GetRaw_def)
next
  case (Cons p pre)
  then show ?case
    by (simp add: cache_calls_def db_getCachedAttachmentZDelta_def)
qed

lemma generateDeltaLoop_found:
  assumes "GetRaw c (Bucket db) (attachmentKeyToDocKey s) = Inr (Some sb)"
    and "generateAttachmentZDelta c (Bucket db) (Some sb) target s key = (Some d, w)"
  shows "generateDeltaLoop c key target (s # post) db =
     (if d = [] then Done () else Return (Some d, s, None),
      \<lparr>Bucket = w, calls = calls db @ fetch_calls [s] @ [GenerateZDeltaCall (Some sb) target s key]\<rparr>)"
  using assms
  by (simp add: fetch_calls_def Bucket_GetRaw_def db_generateAttachmentZDelta_def len_def)

lemma generateDeltaLoop_passed_over:
  "passed_over c key target pre (Bucket db) = Some (w1, cs) \<Longrightarrow>
   generateDeltaLoop c key target (pre @ rest) db =
     generateDeltaLoop c key target rest \<lparr>Bucket = w1, calls = calls db @ cs\<rparr>"
proof (induction pre arbitrary: db w1 cs)
  case Nil
  then show ?case by (cases db) auto
next
  case (Cons s pre)
  let ?src = "case GetRaw c (Bucket db) (attachmentKeyToDocKey s) of Inl _ \<Rightarrow> None | Inr b \<Rightarrow> b"
  show ?case
  proof (cases "?src = None")
    case True
    with Cons.prems obtain cs' where
      p: "passed_over c key target pre (Bucket db) = Some (w1, cs')"
      and cs: "cs = GetRawCall (attachmentKeyToDocKey s) # cs'"
      by (auto simp add: Let_def)
    have "generateDeltaLoop c key target (pre @ rest) (db\<lparr>calls := calls db @ [GetRawCall (attachmentKeyToDocKey s)]\<rparr>) =
          generateDeltaLoop c key target rest
            \<lparr>Bucket = w1, calls = (calls db @ [GetRawCall (attachmentKeyToDocKey s)]) @ cs'\<rparr>"
      using Cons.IH [of "db\<lparr>calls := calls db @ [GetRawCall (attachmentKeyToDocKey s)]\<rparr>" w1 cs'] p
      by simp
    then show ?thesis
      using True cs by (simp add: Bucket_GetRaw_def)
  next
    case False
    obtain r w2 where g: "generateAttachmentZDelta c (Bucket db) ?src target s key = (r, w2)"
      by (cases "generateAttachmentZDelta c (Bucket db) ?src target s key")
    from Cons.prems False g have r: "r = None"
      by (cases r) (simp_all add: Let_def)
    with Cons.prems False g obtain cs' where
      p: "passed_over c key target pre w2 = Some (w1, cs')"
      and cs: "cs = GetRawCall (attachmentKeyToDocKey s) # GenerateZDeltaCall ?src target s key # cs'"
      by (auto simp add: Let_def)
    let ?db = "\<lparr>Bucket = w2, calls = calls db @ [GetRawCall (attachmentKeyToDocKey s),
                  GenerateZDeltaCall ?src target s key]\<rparr>"
    have "generateDeltaLoop c key target (pre @ rest) ?db =
          generateDeltaLoop c key target rest \<lparr>Bucket = w1, calls = calls ?db @ cs'\<rparr>"
      using Cons.IH [of ?db w1 cs'] p by simp
    then show ?thesis
      using False g r cs
      by (simp add: Bucket_GetRaw_def db_generateAttachmentZDelta_def Let_def)
  qed
qed

lemma passed_over_missing:
  "\<forall>p \<in> set pre. missing c w p \<Longrightarrow> passed_over c key target pre w = Some (w, fetch_calls pre)"
  by (induction pre) (simp_all add: fetch_calls_def missing_def)

lemma passed_over_or_decided:
  "(\<exists>w1 cs. passed_over c key target sourceKeys w = Some (w1, cs)) \<or>
   (\<exists>pre s post w1 cs sb d w2.
      sourceKeys = pre @ s # post \<and> passed_over c key target pre w = Some (w1, cs) \<and>
      GetRaw c w1 (attachmentKeyToDocKey s) = Inr (Some sb) \<and>
      generateAttachmentZDelta c w1 (Some sb) target s key = (Some d, w2))"
proof (induction sourceKeys arbitrary: w)
  case Nil
  then show ?case by simp
next
  case (Cons s rest)
  let ?src = "case GetRaw c w (attachmentKeyToDocKey s) of Inl _ \<Rightarrow> None | Inr b \<Rightarrow> b"
  show ?case
  proof (cases "?src = None")
    case True
    from Cons.IH [of w] show ?thesis
    proof
      assume "\<exists>w1 cs. passed_over c key target rest w = Some (w1, cs)"
      then show ?thesis using True by (auto simp add: Let_def)
    next
      assume "\<exists>pre s' post w1 cs sb d w2.
        rest = pre @ s' # post \<and> passed_over c key target pre w = Some (w1, cs) \<and>
        GetRaw c w1 (attachmentKeyToDocKey s') = Inr (Some sb) \<and>
        generateAttachmentZDelta c w1 (Some sb) target s' key = (Some d, w2)"
      then obtain pre s' post w1 cs sb d w2 where
        h: "rest = pre @ s' # post" "passed_over c key target pre w = Some (w1, cs)"
           "GetRaw c w1 (attachmentKeyToDocKey s') = Inr (Some sb)"
           "generateAttachmentZDelta c w1 (Some sb) target s' key = (Some d, w2)"
        by blast
      have "s # rest = (s # pre) @ s' # post" using h(1) by simp
      moreover have "passed_over c key target (s # pre) w =
          Some (w1, GetRawCall (attachmentKeyToDocKey s) # cs)"
        using True h(2) by (simp add: Let_def)
      ultimately show ?thesis using h(3,4) by blast
    qed
  next
    case False
    then obtain sb where sb: "GetRaw c w (attachmentKeyToDocKey s) = Inr (Some sb)"
      by (auto split: sum.splits)
    obtain r w2 where g: "generateAttachmentZDelta c w (Some sb) target s key = (r, w2)"
      by (cases "generateAttachmentZDelta c w (Some sb) target s key")
    show ?thesis
    proof (cases r)
      case (Some d)
      have "s # rest = [] @ s # rest" by simp
      moreover have "passed_over c key target [] w = Some (w, [])" by simp
      ultimately show ?thesis using sb g Some by blast
    next
      case None
      from Cons.IH [of w2] show ?thesis
      proof
        assume "\<exists>w1 cs. passed_over c key target rest w2 = Some (w1, cs)"
        then show ?thesis using sb g None by (auto simp add: Let_def)
      next
        assume "\<exists>pre s' post w1 cs sb d w3.
          rest = pre @ s' # post \<and> passed_over c key target pre w2 = Some (w1, cs) \<and>
          GetRaw c w1 (attachmentKeyToDocKey s') = Inr (Some sb) \<and>
          generateAttachmentZDelta c w1 (Some sb) target s' key = (Some d, w3)"
        then obtain pre s' post w1 cs sb' d w3 where
          h: "rest = pre @ s' # post" "passed_over c key target pre w2 = Some (w1, cs)"
             "GetRaw c w1 (attachmentKeyToDocKey s') = Inr (Some sb')"
             "generateAttachmentZDelta c w1 (Some sb') target s' key = (Some d, w3)"
          by blast
        have "s # rest = (s # pre) @ s' # post" using h(1) by simp
        moreover have "passed_over c key target (s # pre) w =
            Some (w1, GetRawCall (attachmentKeyToDocKey s) #
                      GenerateZDeltaCall (Some sb) target s key # cs)"
          using sb g None h(2) by (simp add: Let_def)
        ultimately show ?thesis using h(3,4) by blast
      qed
    qed
  qed
qed

lemma passed_over_M_A:
  "passed_over in_memory ''sha1-T'' (Some [1, 2, 3, 4]) [''sha1-M'', ''sha1-A''] (codec_B d) =
     Some (codec_B d,
           [GetRawCall ''_sync:att:sha1-M'', GetRawCall ''_sync:att:sha1-A'',
            GenerateZDeltaCall (Some [1, 2]) (Some [1, 2, 3, 4]) ''sha1-A'' ''sha1-T''])"
  by (simp add: in_memory_def codec_B_def store_TAB_def store_T_def attachmentKeyToDocKey_def)

lemma cachedDeltaLoop_error_nil:
  "cachedDeltaLoop c key sourceKeys sk db = (Return (r, s, Some e), db') \<Longrightarrow> r = None"
proof (induction sourceKeys arbitrary: sk db)
  case Nil
  then show ?case by simp
next
  case (Cons a sourceKeys)
  then show ?case
    by (auto simp add: Let_def split: prod.splits if_splits sum.splits)
qed

lemma generateDeltaLoop_no_error:
  "generateDeltaLoop c key target sourceKeys db = (Return (r, s, e), db') \<Longrightarrow> e = None"
proof (induction sourceKeys arbitrary: db)
  case Nil
  then show ?case by simp
next
  case (Cons a sourceKeys)
  then show ?case
    by (auto simp add: Let_def split: prod.splits if_splits sum.splits)
qed

lemma GetAttachmentMaybeAsDelta_error_nil:
  assumes "GetAttachmentMaybeAsDelta c db key sourceKeys = ((r, s, Some e), db')"
  shows "r = None"
  using assms
  by (auto simp add: GetAttachmentMaybeAsDelta_def
      split: prod.splits loop.splits sum.splits
      dest: cachedDeltaLoop_error_nil generateDeltaLoop_no_error)

section \<open>Delta resolution\<close>

text \<open>
  Claim C4. For every target key and ordered candidate list: if the delta cache holds an
  explicitly empty (negative) entry for the first candidate \<open>s1\<close> and the target, the
  result is what fetching the full target blob gives, with the empty source key, and the
  only calls made are the cache lookup for \<open>s1\<close> and the fetch of the target: the delta
  codec is not invoked and no later candidate's cache entry is consulted. And the first
  cache hit with a non-empty payload is returned at once with that candidate as source;
  the only calls made are the cache lookups up to that candidate, so no full blob is
  fetched.
\<close>

theorem GetAttachmentMaybeAsDelta_cached:
  "(getCachedAttachmentZDelta c (Bucket db) s1 key = Some [] \<longrightarrow>
      GetAttachmentMaybeAsDelta c db key (s1 # rest) =
        ((case GetRaw c (Bucket db) (attachmentKeyToDocKey key) of
            Inl err \<Rightarrow> (None, '''', Some err) | Inr target \<Rightarrow> (target, '''', None)),
         db\<lparr>calls := calls db @ [CachedZDeltaCall s1 key, GetRawCall (attachmentKeyToDocKey key)]\<rparr>)) \<and>
   ((\<forall>p \<in> set pre. getCachedAttachmentZDelta c (Bucket db) p key = None) \<and>
    getCachedAttachmentZDelta c (Bucket db) s key = Some d \<and> d \<noteq> [] \<longrightarrow>
      GetAttachmentMaybeAsDelta c db key (pre @ s # post) =
        ((Some d, s, None), db\<lparr>calls := calls db @ cache_calls key (pre @ [s])\<rparr>))"
proof (intro conjI impI)
  assume neg: "getCachedAttachmentZDelta c (Bucket db) s1 key = Some []"
  have "cachedDeltaLoop c key ([] @ s1 # rest) '''' db =
      (Return (case GetRaw c (Bucket db) (attachmentKeyToDocKey key) of
                   Inl err \<Rightarrow> (None, '''', Some err) | Inr target \<Rightarrow> (target, '''', None)),
         db\<lparr>calls := calls db @ cache_calls key ([] @ [s1]) @ [GetRawCall (attachmentKeyToDocKey key)]\<rparr>)"
    using cachedDeltaLoop_hit [of "[]" c db key s1 "[]" rest "''''"] neg by simp
  then show "GetAttachmentMaybeAsDelta c db key (s1 # rest) =
        ((case GetRaw c (Bucket db) (attachmentKeyToDocKey key) of
            Inl err \<Rightarrow> (None, '''', Some err) | Inr target \<Rightarrow> (target, '''', None)),
         db\<lparr>calls := calls db @ [CachedZDeltaCall s1 key, GetRawCall (attachmentKeyToDocKey key)]\<rparr>)"
    by (simp add: GetAttachmentMaybeAsDelta_def cache_calls_def)
next
  assume h: "(\<forall>p \<in> set pre. getCachedAttachmentZDelta c (Bucket db) p key = None) \<and>
    getCachedAttachmentZDelta c (Bucket db) s key = Some d \<and> d \<noteq> []"
  then have "cachedDeltaLoop c key (pre @ s # post) '''' db =
      (Return (Some d, s, None), db\<lparr>calls := calls db @ cache_calls key (pre @ [s])\<rparr>)"
    using cachedDeltaLoop_hit [of pre c db key s d post "''''"] by simp
  then show "GetAttachmentMaybeAsDelta c db key (pre @ s # post) =
        ((Some d, s, None), db\<lparr>calls := calls db @ cache_calls key (pre @ [s])\<rparr>)"
    by (simp add: GetAttachmentMaybeAsDelta_def)
qed

theorem GetAttachmentMaybeAsDelta_cached_witness:
  "GetAttachmentMaybeAsDelta in_memory
     (opened \<lparr>blobs = store_T, deltas = [((''sha1-A'', ''sha1-T''), [])], codec = [], revs = []\<rparr>)
     ''sha1-T'' [''sha1-A'', ''sha1-B''] =
     ((Some [1, 2, 3, 4], '''', None),
      \<lparr>Bucket = \<lparr>blobs = store_T, deltas = [((''sha1-A'', ''sha1-T''), [])], codec = [], revs = []\<rparr>,
       calls = [CachedZDeltaCall ''sha1-A'' ''sha1-T'', GetRawCall ''_sync:att:sha1-T'']\<rparr>) \<and>
   GetAttachmentMaybeAsDelta in_memory
     (opened \<lparr>blobs = store_T, deltas = [((''sha1-B'', ''sha1-T''), [9, 9])], codec = [], revs = []\<rparr>)
     ''sha1-T'' [''sha1-A'', ''sha1-B'', ''sha1-C''] =
     ((Some [9, 9], ''sha1-B'', None),
      \<lparr>Bucket = \<lparr>blobs = store_T, deltas = [((''sha1-B'', ''sha1-T''), [9, 9])], codec = [], revs = []\<rparr>,
       calls = [CachedZDeltaCall ''sha1-A'' ''sha1-T'', CachedZDeltaCall ''sha1-B'' ''sha1-T'']\<rparr>)"
  using
    GetAttachmentMaybeAsDelta_cached [where c = in_memory and key = "''sha1-T''" and ?s1.0 = "''sha1-A''" and rest = "[''sha1-B'']"
          and db = "opened \<lparr>blobs = store_T, deltas = [((''sha1-A'', ''sha1-T''), [])], codec = [], revs = []\<rparr>"
          and pre = "[]" and s = "''sha1-A''" and d = "[]" and post = "[]"]
    GetAttachmentMaybeAsDelta_cached [where c = in_memory and key = "''sha1-T''" and ?s1.0 = "''sha1-A''" and rest = "[]"
          and db = "opened \<lparr>blobs = store_T, deltas = [((''sha1-B'', ''sha1-T''), [9, 9])], codec = [], revs = []\<rparr>"
          and pre = "[''sha1-A'']" and s = "''sha1-B''" and d = "[9, 9]" and post = "[''sha1-C'']"]
  by (simp add: in_memory_def opened_def store_T_def attachmentKeyToDocKey_def cache_calls_def)

text \<open>
  Claim C5. In the second phase (no candidate has a cache entry) the full target blob is
  fetched first, and a failure of that fetch is returned as the error, nothing else being
  called. Otherwise the candidates are tried in order. Those whose raw blob is missing are
  passed over without error, and so are those whose blob is found and for which the codec
  returns nil: the loop goes on after them. For the first candidate for which the codec
  returns a delta, a non-empty delta is returned at once with that candidate as source,
  and an explicitly empty delta ends the loop, no later candidate being fetched, and
  yields the full target blob fetched before, with the empty source key. When every
  candidate is passed over the full target blob comes back as well. The last three
  conjuncts say what being passed over is, and that every run is one of these: either
  all candidates are passed over, or there is a first one for which the codec returns a
  delta.
\<close>

theorem GetAttachmentMaybeAsDelta_generate:
  assumes nohit: "\<forall>s \<in> set sourceKeys. getCachedAttachmentZDelta c (Bucket db) s key = None"
  shows
   "(GetRaw c (Bucket db) (attachmentKeyToDocKey key) = Inl err \<longrightarrow>
       GetAttachmentMaybeAsDelta c db key sourceKeys =
         ((None, last ('''' # sourceKeys), Some err),
          db\<lparr>calls := calls db @ cache_calls key sourceKeys @ [GetRawCall (attachmentKeyToDocKey key)]\<rparr>)) \<and>
    (GetRaw c (Bucket db) (attachmentKeyToDocKey key) = Inr target \<and>
     sourceKeys = pre @ s # post \<and>
     passed_over c key target pre (Bucket db) = Some (w1, cs) \<and>
     GetRaw c w1 (attachmentKeyToDocKey s) = Inr (Some sb) \<and>
     generateAttachmentZDelta c w1 (Some sb) target s key = (Some d, w) \<longrightarrow>
       GetAttachmentMaybeAsDelta c db key sourceKeys =
         (if d = [] then (target, '''', None) else (Some d, s, None),
          \<lparr>Bucket = w,
           calls = calls db @ cache_calls key sourceKeys @ [GetRawCall (attachmentKeyToDocKey key)] @
                   cs @ [GetRawCall (attachmentKeyToDocKey s),
                         GenerateZDeltaCall (Some sb) target s key]\<rparr>)) \<and>
    (GetRaw c (Bucket db) (attachmentKeyToDocKey key) = Inr target \<and>
     passed_over c key target sourceKeys (Bucket db) = Some (w1, cs) \<longrightarrow>
       GetAttachmentMaybeAsDelta c db key sourceKeys =
         ((target, '''', None),
          \<lparr>Bucket = w1,
           calls = calls db @ cache_calls key sourceKeys @ [GetRawCall (attachmentKeyToDocKey key)] @ cs\<rparr>)) \<and>
    ((\<forall>p \<in> set ps. missing c w0 p) \<longrightarrow>
       passed_over c key target ps w0 = Some (w0, fetch_calls ps)) \<and>
    (GetRaw c w0 (attachmentKeyToDocKey p) = Inr (Some pb) \<and>
     generateAttachmentZDelta c w0 (Some pb) target p key = (None, w2) \<longrightarrow>
       passed_over c key target (p # ps) w0 =
         map_option (\<lambda>(w', cs). (w', GetRawCall (attachmentKeyToDocKey p) #
                                      GenerateZDeltaCall (Some pb) target p key # cs))
           (passed_over c key target ps w2)) \<and>
    ((\<exists>w' cs'. passed_over c key target sourceKeys (Bucket db) = Some (w', cs')) \<or>
     (\<exists>pre' s' post' w' cs' sb' d' w''.
        sourceKeys = pre' @ s' # post' \<and>
        passed_over c key target pre' (Bucket db) = Some (w', cs') \<and>
        GetRaw c w' (attachmentKeyToDocKey s') = Inr (Some sb') \<and>
        generateAttachmentZDelta c w' (Some sb') target s' key = (Some d', w'')))"
proof -
  let ?db1 = "db\<lparr>calls := calls db @ cache_calls key sourceKeys\<rparr>"
  let ?db2 = "db\<lparr>calls := calls db @ cache_calls key sourceKeys @ [GetRawCall (attachmentKeyToDocKey key)]\<rparr>"
  have phase1: "cachedDeltaLoop c key sourceKeys '''' db = (Done (last ('''' # sourceKeys)), ?db1)"
    using cachedDeltaLoop_misses [OF nohit] .
  have fetch: "GetAttachment c ?db1 key = (GetRaw c (Bucket db) (attachmentKeyToDocKey key), ?db2)"
    by (simp add: GetAttachment_def Bucket_GetRaw_def)
  have failed: "GetAttachmentMaybeAsDelta c db key sourceKeys = ((None, last ('''' # sourceKeys), Some err), ?db2)"
    if "GetRaw c (Bucket db) (attachmentKeyToDocKey key) = Inl err"
    using that phase1 fetch by (simp add: GetAttachmentMaybeAsDelta_def)
  have generated: "GetAttachmentMaybeAsDelta c db key sourceKeys =
         (if d = [] then (target, '''', None) else (Some d, s, None),
          \<lparr>Bucket = w,
           calls = calls db @ cache_calls key sourceKeys @ [GetRawCall (attachmentKeyToDocKey key)] @
                   cs @ [GetRawCall (attachmentKeyToDocKey s),
                         GenerateZDeltaCall (Some sb) target s key]\<rparr>)"
    if t: "GetRaw c (Bucket db) (attachmentKeyToDocKey key) = Inr target"
      and split: "sourceKeys = pre @ s # post"
      and passed: "passed_over c key target pre (Bucket db) = Some (w1, cs)"
      and found: "GetRaw c w1 (attachmentKeyToDocKey s) = Inr (Some sb)"
      and delta: "generateAttachmentZDelta c w1 (Some sb) target s key = (Some d, w)"
  proof -
    let ?db3 = "\<lparr>Bucket = w1, calls = calls ?db2 @ cs\<rparr>"
    have "generateDeltaLoop c key target (pre @ s # post) ?db2 =
            generateDeltaLoop c key target (s # post) ?db3"
      using passed by (intro generateDeltaLoop_passed_over) simp
    also have "\<dots> = (if d = [] then Done () else Return (Some d, s, None),
        \<lparr>Bucket = w, calls = calls ?db3 @ fetch_calls [s] @ [GenerateZDeltaCall (Some sb) target s key]\<rparr>)"
      using found delta by (intro generateDeltaLoop_found) simp_all
    finally show ?thesis
      using phase1 fetch t split
      by (simp add: GetAttachmentMaybeAsDelta_def fetch_calls_def)
  qed
  have none: "GetAttachmentMaybeAsDelta c db key sourceKeys =
         ((target, '''', None),
          \<lparr>Bucket = w1,
           calls = calls db @ cache_calls key sourceKeys @ [GetRawCall (attachmentKeyToDocKey key)] @ cs\<rparr>)"
    if t: "GetRaw c (Bucket db) (attachmentKeyToDocKey key) = Inr target"
      and passed: "passed_over c key target sourceKeys (Bucket db) = Some (w1, cs)"
  proof -
    have "generateDeltaLoop c key target (sourceKeys @ []) ?db2 =
            generateDeltaLoop c key target [] \<lparr>Bucket = w1, calls = calls ?db2 @ cs\<rparr>"
      using passed by (intro generateDeltaLoop_passed_over) simp
    then show ?thesis
      using phase1 fetch t by (simp add: GetAttachmentMaybeAsDelta_def)
  qed
  have step: "passed_over c key target (p # ps) w0 =
         map_option (\<lambda>(w', cs). (w', GetRawCall (attachmentKeyToDocKey p) #
                                      GenerateZDeltaCall (Some pb) target p key # cs))
           (passed_over c key target ps w2)"
    if "GetRaw c w0 (attachmentKeyToDocKey p) = Inr (Some pb)"
      and "generateAttachmentZDelta c w0 (Some pb) target p key = (None, w2)"
    using that by (simp add: Let_def)
  show ?thesis
    using failed generated none step passed_over_missing [of ps c w0 key target]
      passed_over_or_decided [of c key target sourceKeys "Bucket db"]
    by (intro conjI impI) blast+
qed

theorem GetAttachmentMaybeAsDelta_generate_witness:
  "GetAttachmentMaybeAsDelta in_memory (opened empty_mem) ''sha1-T'' [''sha1-A''] =
     ((None, ''sha1-A'', Some (OtherError ''key not found'')),
      \<lparr>Bucket = empty_mem,
       calls = [CachedZDeltaCall ''sha1-A'' ''sha1-T'', GetRawCall ''_sync:att:sha1-T'']\<rparr>) \<and>
   GetAttachmentMaybeAsDelta in_memory (opened (codec_B [7])) ''sha1-T''
     [''sha1-M'', ''sha1-A'', ''sha1-B'', ''sha1-C''] =
     ((Some [7], ''sha1-B'', None),
      \<lparr>Bucket = (codec_B [7])\<lparr>deltas := [((''sha1-B'', ''sha1-T''), [7])]\<rparr>,
       calls = [CachedZDeltaCall ''sha1-M'' ''sha1-T'', CachedZDeltaCall ''sha1-A'' ''sha1-T'',
                CachedZDeltaCall ''sha1-B'' ''sha1-T'', CachedZDeltaCall ''sha1-C'' ''sha1-T'',
                GetRawCall ''_sync:att:sha1-T'',
                GetRawCall ''_sync:att:sha1-M'', GetRawCall ''_sync:att:sha1-A'',
                GenerateZDeltaCall (Some [1, 2]) (Some [1, 2, 3, 4]) ''sha1-A'' ''sha1-T'',
                GetRawCall ''_sync:att:sha1-B'',
                GenerateZDeltaCall (Some [1, 2, 3]) (Some [1, 2, 3, 4]) ''sha1-B'' ''sha1-T'']\<rparr>) \<and>
   GetAttachmentMaybeAsDelta in_memory (opened (codec_B [])) ''sha1-T''
     [''sha1-M'', ''sha1-A'', ''sha1-B'', ''sha1-C''] =
     ((Some [1, 2, 3, 4], '''', None),
      \<lparr>Bucket = (codec_B [])\<lparr>deltas := [((''sha1-B'', ''sha1-T''), [])]\<rparr>,
       calls = [CachedZDeltaCall ''sha1-M'' ''sha1-T'', CachedZDeltaCall ''sha1-A'' ''sha1-T'',
                CachedZDeltaCall ''sha1-B'' ''sha1-T'', CachedZDeltaCall ''sha1-C'' ''sha1-T'',
                GetRawCall ''_sync:att:sha1-T'',
                GetRawCall ''_sync:att:sha1-M'', GetRawCall ''_sync:att:sha1-A'',
                GenerateZDeltaCall (Some [1, 2]) (Some [1, 2, 3, 4]) ''sha1-A'' ''sha1-T'',
                GetRawCall ''_sync:att:sha1-B'',
                GenerateZDeltaCall (Some [1, 2, 3]) (Some [1, 2, 3, 4]) ''sha1-B'' ''sha1-T'']\<rparr>) \<and>
   GetAttachmentMaybeAsDelta in_memory (opened (codec_B [7])) ''sha1-T'' [''sha1-M'', ''sha1-A''] =
     ((Some [1, 2, 3, 4], '''', None),
      \<lparr>Bucket = codec_B [7],
       calls = [CachedZDeltaCall ''sha1-M'' ''sha1-T'', CachedZDeltaCall ''sha1-A'' ''sha1-T'',
                GetRawCall ''_sync:att:sha1-T'',
                GetRawCall ''_sync:att:sha1-M'', GetRawCall ''_sync:att:sha1-A'',
                GenerateZDeltaCall (Some [1, 2]) (Some [1, 2, 3, 4]) ''sha1-A'' ''sha1-T'']\<rparr>) \<and>
   passed_over in_memory ''sha1-T'' (Some [1, 2, 3, 4]) [''sha1-M''] (codec_B [7]) =
     Some (codec_B [7], [GetRawCall ''_sync:att:sha1-M'']) \<and>
   passed_over in_memory ''sha1-T'' (Some [1, 2, 3, 4]) [''sha1-A''] (codec_B [7]) =
     Some (codec_B [7], [GetRawCall ''_sync:att:sha1-A'',
                         GenerateZDeltaCall (Some [1, 2]) (Some [1, 2, 3, 4]) ''sha1-A'' ''sha1-T''])"
proof -
  note defs = in_memory_def opened_def codec_B_def empty_mem_def store_TAB_def store_T_def
    attachmentKeyToDocKey_def cache_calls_def fetch_calls_def missing_def
  have n0: "\<forall>s \<in> set [''sha1-A'']. getCachedAttachmentZDelta in_memory (Bucket (opened empty_mem)) s ''sha1-T'' = None"
    by (simp add: defs)
  have n1: "\<forall>s \<in> set [''sha1-M'', ''sha1-A'', ''sha1-B'', ''sha1-C''].
      getCachedAttachmentZDelta in_memory (Bucket (opened (codec_B d))) s ''sha1-T'' = None" for d
    by (simp add: defs)
  have n2: "\<forall>s \<in> set [''sha1-M'', ''sha1-A''].
      getCachedAttachmentZDelta in_memory (Bucket (opened (codec_B d))) s ''sha1-T'' = None" for d
    by (simp add: defs)
  have 1: "GetAttachmentMaybeAsDelta in_memory (opened empty_mem) ''sha1-T'' [''sha1-A''] =
     ((None, ''sha1-A'', Some (OtherError ''key not found'')),
      \<lparr>Bucket = empty_mem,
       calls = [CachedZDeltaCall ''sha1-A'' ''sha1-T'', GetRawCall ''_sync:att:sha1-T'']\<rparr>)"
    using GetAttachmentMaybeAsDelta_generate [OF n0, THEN conjunct1, of "OtherError ''key not found''"]
    by (simp add: defs)
  have 2: "GetAttachmentMaybeAsDelta in_memory (opened (codec_B d)) ''sha1-T''
     [''sha1-M'', ''sha1-A'', ''sha1-B'', ''sha1-C''] =
     (if d = [] then (Some [1, 2, 3, 4], '''', None) else (Some d, ''sha1-B'', None),
      \<lparr>Bucket = (codec_B d)\<lparr>deltas := [((''sha1-B'', ''sha1-T''), d)]\<rparr>,
       calls = [CachedZDeltaCall ''sha1-M'' ''sha1-T'', CachedZDeltaCall ''sha1-A'' ''sha1-T'',
                CachedZDeltaCall ''sha1-B'' ''sha1-T'', CachedZDeltaCall ''sha1-C'' ''sha1-T'',
                GetRawCall ''_sync:att:sha1-T'',
                GetRawCall ''_sync:att:sha1-M'', GetRawCall ''_sync:att:sha1-A'',
                GenerateZDeltaCall (Some [1, 2]) (Some [1, 2, 3, 4]) ''sha1-A'' ''sha1-T'',
                GetRawCall ''_sync:att:sha1-B'',
                GenerateZDeltaCall (Some [1, 2, 3]) (Some [1, 2, 3, 4]) ''sha1-B'' ''sha1-T'']\<rparr>)" for d
  proof -
    have h: "GetRaw in_memory (Bucket (opened (codec_B d))) (attachmentKeyToDocKey ''sha1-T'') =
          Inr (Some [1, 2, 3, 4]) \<and>
        [''sha1-M'', ''sha1-A'', ''sha1-B'', ''sha1-C''] = [''sha1-M'', ''sha1-A''] @ ''sha1-B'' # [''sha1-C''] \<and>
        passed_over in_memory ''sha1-T'' (Some [1, 2, 3, 4]) [''sha1-M'', ''sha1-A'']
          (Bucket (opened (codec_B d))) =
          Some (codec_B d,
           [GetRawCall ''_sync:att:sha1-M'', GetRawCall ''_sync:att:sha1-A'',
            GenerateZDeltaCall (Some [1, 2]) (Some [1, 2, 3, 4]) ''sha1-A'' ''sha1-T'']) \<and>
        GetRaw in_memory (codec_B d) (attachmentKeyToDocKey ''sha1-B'') = Inr (Some [1, 2, 3]) \<and>
        generateAttachmentZDelta in_memory (codec_B d) (Some [1, 2, 3]) (Some [1, 2, 3, 4])
          ''sha1-B'' ''sha1-T'' = (Some d, (codec_B d)\<lparr>deltas := [((''sha1-B'', ''sha1-T''), d)]\<rparr>)"
      by (simp add: passed_over_M_A opened_def)
         (simp add: in_memory_def codec_B_def store_TAB_def store_T_def attachmentKeyToDocKey_def)
    show ?thesis
      using GetAttachmentMaybeAsDelta_generate [OF n1, THEN conjunct2, THEN conjunct1, THEN mp, OF h]
      by (simp add: opened_def cache_calls_def attachmentKeyToDocKey_def)
  qed
  have 3: "GetAttachmentMaybeAsDelta in_memory (opened (codec_B [7])) ''sha1-T'' [''sha1-M'', ''sha1-A''] =
     ((Some [1, 2, 3, 4], '''', None),
      \<lparr>Bucket = codec_B [7],
       calls = [CachedZDeltaCall ''sha1-M'' ''sha1-T'', CachedZDeltaCall ''sha1-A'' ''sha1-T'',
                GetRawCall ''_sync:att:sha1-T'',
                GetRawCall ''_sync:att:sha1-M'', GetRawCall ''_sync:att:sha1-A'',
                GenerateZDeltaCall (Some [1, 2]) (Some [1, 2, 3, 4]) ''sha1-A'' ''sha1-T'']\<rparr>)"
  proof -
    have h: "GetRaw in_memory (Bucket (opened (codec_B [7]))) (attachmentKeyToDocKey ''sha1-T'') =
          Inr (Some [1, 2, 3, 4]) \<and>
        passed_over in_memory ''sha1-T'' (Some [1, 2, 3, 4]) [''sha1-M'', ''sha1-A'']
          (Bucket (opened (codec_B [7]))) =
          Some (codec_B [7],
           [GetRawCall ''_sync:att:sha1-M'', GetRawCall ''_sync:att:sha1-A'',
            GenerateZDeltaCall (Some [1, 2]) (Some [1, 2, 3, 4]) ''sha1-A'' ''sha1-T''])"
      by (simp add: passed_over_M_A opened_def)
         (simp add: in_memory_def codec_B_def store_TAB_def store_T_def attachmentKeyToDocKey_def)
    show ?thesis
      using GetAttachmentMaybeAsDelta_generate [OF n2, THEN conjunct2, THEN conjunct2, THEN conjunct1, THEN mp, OF h]
      by (simp add: opened_def cache_calls_def attachmentKeyToDocKey_def)
  qed
  have 4: "passed_over in_memory ''sha1-T'' (Some [1, 2, 3, 4]) [''sha1-M''] (codec_B [7]) =
     Some (codec_B [7], [GetRawCall ''_sync:att:sha1-M''])"
    using GetAttachmentMaybeAsDelta_generate [where ps = "[''sha1-M'']" and ?w0.0 = "codec_B [7]" and target = "Some [1, 2, 3, 4]",
        OF n0, THEN conjunct2, THEN conjunct2, THEN conjunct2, THEN conjunct1, THEN mp]
    by (simp add: defs)
  have 5: "passed_over in_memory ''sha1-T'' (Some [1, 2, 3, 4]) [''sha1-A''] (codec_B [7]) =
     Some (codec_B [7], [GetRawCall ''_sync:att:sha1-A'',
                         GenerateZDeltaCall (Some [1, 2]) (Some [1, 2, 3, 4]) ''sha1-A'' ''sha1-T''])"
    using GetAttachmentMaybeAsDelta_generate [where ?w0.0 = "codec_B [7]" and p = "''sha1-A''" and pb = "[1, 2]"
          and target = "Some [1, 2, 3, 4]" and ?w2.0 = "codec_B [7]" and ps = "[]",
        OF n0, THEN conjunct2, THEN conjunct2, THEN conjunct2, THEN conjunct2, THEN conjunct1, THEN mp]
    by (simp add: defs)
  show ?thesis using 1 2 [of "[7]"] 2 [of "[]"] 3 4 5 by simp
qed

section \<open>LoadData\<close>

lemma Compressible_notes: "Compressible notes_txt"
  by code_simp

lemma offered_notes: "offered notes_txt True = [''sha1-A'']"
  by (simp add: offered_def Compressible_notes elems_def) (simp add: notes_txt_def)

text \<open>
  Claim C10. For every handle with no data resolved yet: if the delta resolution returns
  an error, \<open>LoadData\<close> returns that error with nil bytes and the handle is left as it
  was, so its metadata record gains neither \<open>data\<close> nor \<open>zdeltasrc\<close> and keeps
  \<open>stub\<close>, and the candidate list and the selected delta source are unchanged.
\<close>

theorem LoadData_error:
  assumes "Data a = None"
    and "GetAttachmentMaybeAsDelta c db (Key a) (offered a deltaOK) = ((r, s, Some e), db')"
  shows "LoadData c db a deltaOK = ((None, Some e), a, db')"
  using assms GetAttachmentMaybeAsDelta_error_nil [OF assms(2)]
  by (simp add: LoadData_def offered_def Let_def)

theorem LoadData_error_witness:
  "Data notes_txt = None \<and>
   LoadData in_memory (opened \<lparr>blobs = [], deltas = [], codec = [], revs = []\<rparr>) notes_txt True =
     ((None, Some (OtherError ''key not found'')), notes_txt,
      \<lparr>Bucket = \<lparr>blobs = [], deltas = [], codec = [], revs = []\<rparr>,
       calls = [CachedZDeltaCall ''sha1-A'' ''sha1-T'', GetRawCall ''_sync:att:sha1-T'']\<rparr>)"
proof -
  have d: "Data notes_txt = None"
    by (simp add: Data_def notes_txt_def index_def as_bytes_def)
  have k: "Key notes_txt = ''sha1-T''"
    by (simp add: Key_def notes_txt_def index_def as_string_def)
  have e: "GetAttachmentMaybeAsDelta in_memory (opened \<lparr>blobs = [], deltas = [], codec = [], revs = []\<rparr>)
             (Key notes_txt) (offered notes_txt True) =
           ((None, ''sha1-A'', Some (OtherError ''key not found'')),
            \<lparr>Bucket = \<lparr>blobs = [], deltas = [], codec = [], revs = []\<rparr>,
             calls = [CachedZDeltaCall ''sha1-A'' ''sha1-T'', GetRawCall ''_sync:att:sha1-T'']\<rparr>)"
    by (simp add: k offered_notes GetAttachmentMaybeAsDelta_def in_memory_def opened_def
        db_getCachedAttachmentZDelta_def GetAttachment_def Bucket_GetRaw_def attachmentKeyToDocKey_def)
  show ?thesis using d LoadData_error [OF d e] by simp
qed

text \<open>
  Claim C3, as the source has it. For every handle with no data resolved yet, when
  \<open>LoadData\<close> succeeds the bytes it returns are those of the delta resolution and are
  stored under \<open>data\<close> in the metadata record; the candidate list is set to nil and the
  chosen source becomes the selected delta source of the handle (the empty key if none was
  chosen); \<open>stub\<close> is removed; the chosen source is stored under \<open>zdeltasrc\<close> when it
  is not empty; nothing else of the handle changes. And when \<open>Data\<close> is not nil,
  \<open>LoadData\<close> returns it and neither the handle nor the database (so no call is made)
  changes.
\<close>

theorem LoadData_success:
  "(Data a = None \<and> LoadData c db a deltaOK = ((data, None), a', db') \<longrightarrow>
      GetAttachmentMaybeAsDelta c db (Key a) (offered a deltaOK) = ((data, deltaSource a', None), db') \<and>
      index (meta a') ''data'' = VBytes data \<and>
      possibleDeltaSources a' = None \<and>
      map_of (meta a') ''stub'' = None \<and>
      (deltaSource a' \<noteq> '''' \<longrightarrow> index (meta a') ''zdeltasrc'' = VString (deltaSource a')) \<and>
      (deltaSource a' = '''' \<longrightarrow> map_of (meta a') ''zdeltasrc'' = map_of (meta a) ''zdeltasrc'') \<and>
      (\<forall>k. k \<notin> {''data'', ''stub'', ''zdeltasrc''} \<longrightarrow> map_of (meta a') k = map_of (meta a) k) \<and>
      Name a' = Name a \<and> followingData a' = followingData a) \<and>
   (Data a \<noteq> None \<longrightarrow> LoadData c db a deltaOK = ((Data a, None), a, db))"
proof (intro conjI impI)
  assume "Data a \<noteq> None"
  then show "LoadData c db a deltaOK = ((Data a, None), a, db)"
    by (cases "Data a") (simp_all add: LoadData_def Let_def)
next
  assume h: "Data a = None \<and> LoadData c db a deltaOK = ((data, None), a', db')"
  obtain res d where eng0: "GetAttachmentMaybeAsDelta c db (Key a) (offered a deltaOK) = (res, d)"
    by (cases "GetAttachmentMaybeAsDelta c db (Key a) (offered a deltaOK)")
  obtain r s e where res: "res = (r, s, e)"
    by (cases res)
  note eng = eng0 [unfolded res]
  have L: "LoadData c db a deltaOK =
      (if e = None then
         ((r, e), a\<lparr>possibleDeltaSources := None, deltaSource := s,
               meta := AList.delete ''stub''
                 (if s \<noteq> '''' then AList.update ''zdeltasrc'' (VString s)
                                       (AList.update ''data'' (VBytes r) (meta a))
                  else AList.update ''data'' (VBytes r) (meta a))\<rparr>, d)
       else ((r, e), a, d))"
    using h eng [unfolded offered_def] by (simp add: LoadData_def Let_def)
  have e: "e = None"
    using h L by (simp split: if_splits)
  have r: "r = data" and d: "d = db'"
    and a': "a' = a\<lparr>possibleDeltaSources := None, deltaSource := s,
               meta := AList.delete ''stub''
                 (if s \<noteq> '''' then AList.update ''zdeltasrc'' (VString s)
                                       (AList.update ''data'' (VBytes r) (meta a))
                  else AList.update ''data'' (VBytes r) (meta a))\<rparr>"
    using h L e by simp_all
  show "GetAttachmentMaybeAsDelta c db (Key a) (offered a deltaOK) = ((data, deltaSource a', None), db')"
    using eng e r d a' by simp
  show "index (meta a') ''data'' = VBytes data"
    using r a' by (simp add: index_def delete_conv' update_conv')
  show "possibleDeltaSources a' = None" using a' by simp
  show "map_of (meta a') ''stub'' = None" using a' by (simp add: delete_conv')
  show "index (meta a') ''zdeltasrc'' = VString (deltaSource a')" if "deltaSource a' \<noteq> ''''"
    using that a' by (simp add: index_def delete_conv' update_conv')
  show "map_of (meta a') ''zdeltasrc'' = map_of (meta a) ''zdeltasrc''" if "deltaSource a' = ''''"
    using that a' by (simp add: delete_conv' update_conv')
  show "\<forall>k. k \<notin> {''data'', ''stub'', ''zdeltasrc''} \<longrightarrow> map_of (meta a') k = map_of (meta a) k"
    using a' by (simp add: delete_conv' update_conv')
  show "Name a' = Name a" using a' by simp
  show "followingData a' = followingData a" using a' by simp
qed

lemma LoadData_notes_txt:
  "LoadData in_memory (opened cached_A_T) notes_txt True =
     ((Some [9, 9], None),
      \<lparr>Name = ''notes.txt'', followingData = None, possibleDeltaSources = None,
       deltaSource = ''sha1-A'',
       meta = [(''digest'', VString ''sha1-T''), (''revpos'', VFloat64 2), (''data'', VBytes (Some [9, 9])),
               (''zdeltasrc'', VString ''sha1-A'')]\<rparr>,
      \<lparr>Bucket = cached_A_T, calls = [CachedZDeltaCall ''sha1-A'' ''sha1-T'']\<rparr>)"
proof -
  have d: "Data notes_txt = None"
    by (simp add: Data_def notes_txt_def index_def as_bytes_def)
  have k: "Key notes_txt = ''sha1-T''"
    by (simp add: Key_def notes_txt_def index_def as_string_def)
  have c: "possibleDeltaSources notes_txt = Some [''sha1-A'']"
    by (simp add: notes_txt_def)
  have e: "GetAttachmentMaybeAsDelta in_memory (opened cached_A_T) ''sha1-T'' [''sha1-A''] =
           ((Some [9, 9], ''sha1-A'', None),
            \<lparr>Bucket = cached_A_T, calls = [CachedZDeltaCall ''sha1-A'' ''sha1-T'']\<rparr>)"
    by (simp add: GetAttachmentMaybeAsDelta_def in_memory_def opened_def cached_A_T_def
        db_getCachedAttachmentZDelta_def len_def)
  show ?thesis
    by (simp add: LoadData_def d k c e Compressible_notes elems_def Let_def)
       (simp add: notes_txt_def)
qed

text \<open>
  As stated, C3 has the candidate list replaced by the single chosen source. Here the
  cached delta against \<open>sha1-A\<close> is chosen, and the candidate list afterwards is nil, not
  the list of \<open>sha1-A\<close>.
\<close>

theorem LoadData_success_counterexample:
  "Data notes_txt = None \<and>
   possibleDeltaSources notes_txt = Some [''sha1-A''] \<and>
   fst (LoadData in_memory (opened cached_A_T) notes_txt True) = (Some [9, 9], None) \<and>
   deltaSource (fst (snd (LoadData in_memory (opened cached_A_T) notes_txt True))) = ''sha1-A'' \<and>
   possibleDeltaSources (fst (snd (LoadData in_memory (opened cached_A_T) notes_txt True))) \<noteq>
     Some [''sha1-A'']"
  by (simp add: LoadData_notes_txt) (simp add: notes_txt_def Data_def index_def as_bytes_def)

theorem LoadData_success_witness:
  "Data notes_txt = None \<and>
   GetAttachmentMaybeAsDelta in_memory (opened cached_A_T) (Key notes_txt) (offered notes_txt True) =
     ((Some [9, 9], ''sha1-A'', None),
      \<lparr>Bucket = cached_A_T, calls = [CachedZDeltaCall ''sha1-A'' ''sha1-T'']\<rparr>) \<and>
   Data delta_of_notes = Some [9, 9] \<and>
   LoadData in_memory (opened cached_A_T) delta_of_notes True =
     ((Some [9, 9], None), delta_of_notes, opened cached_A_T)"
proof -
  have d: "Data notes_txt = None"
    by (simp add: Data_def notes_txt_def index_def as_bytes_def)
  have d': "Data delta_of_notes = Some [9, 9]"
    by (simp add: Data_def delta_of_notes_def index_def as_bytes_def)
  have "GetAttachmentMaybeAsDelta in_memory (opened cached_A_T) (Key notes_txt) (offered notes_txt True) =
     ((Some [9, 9],
       deltaSource \<lparr>Name = ''notes.txt'', followingData = None, possibleDeltaSources = None,
                   deltaSource = ''sha1-A'',
                   meta = [(''digest'', VString ''sha1-T''), (''revpos'', VFloat64 2),
                           (''data'', VBytes (Some [9, 9])), (''zdeltasrc'', VString ''sha1-A'')]\<rparr>, None),
      \<lparr>Bucket = cached_A_T, calls = [CachedZDeltaCall ''sha1-A'' ''sha1-T'']\<rparr>)"
    using LoadData_success [THEN conjunct1, THEN mp, THEN conjunct1, OF conjI, OF d LoadData_notes_txt] .
  then have 1: "GetAttachmentMaybeAsDelta in_memory (opened cached_A_T) (Key notes_txt) (offered notes_txt True) =
     ((Some [9, 9], ''sha1-A'', None),
      \<lparr>Bucket = cached_A_T, calls = [CachedZDeltaCall ''sha1-A'' ''sha1-T'']\<rparr>)"
    by simp
  have "Data delta_of_notes \<noteq> None" using d' by simp
  then have "LoadData in_memory (opened cached_A_T) delta_of_notes True =
     ((Data delta_of_notes, None), delta_of_notes, opened cached_A_T)"
    using LoadData_success [THEN conjunct2, THEN mp] by blast
  then have 2: "LoadData in_memory (opened cached_A_T) delta_of_notes True =
     ((Some [9, 9], None), delta_of_notes, opened cached_A_T)"
    using d' by simp
  show ?thesis using d d' 1 2 by blast
qed

section \<open>Discovery\<close>

lemma findAttachmentsLoop_maps:
  "\<forall>e \<in> set entries. as_map (snd e) \<noteq> None \<Longrightarrow>
   findAttachmentsLoop x n dsk entries acc =
     Inr (acc @ map (handle_for dsk) (filter (\<lambda>e. revpos_at_least x n (snd e)) entries))"
proof (induction entries arbitrary: acc)
  case Nil
  then show ?case by simp
next
  case (Cons e entries)
  obtain name v where e: "e = (name, v)" by (cases e)
  obtain m where v: "as_map v = Some m" using Cons.prems e by auto
  obtain revpos ok where r: "ToInt64 x (index m ''revpos'') = (revpos, ok)" by (cases "ToInt64 x (index m ''revpos'')")
  have rest: "\<forall>e \<in> set entries. as_map (snd e) \<noteq> None" using Cons.prems by simp
  show ?case
    using Cons.IH [OF rest] e v r
    by (cases "dsk name")
       (auto simp add: revpos_at_least_def handle_for_def elems_def split: option.splits)
qed

lemma findAttachmentsLoop_panics:
  "\<forall>e \<in> set pre. as_map (snd e) \<noteq> None \<Longrightarrow> as_map v = None \<Longrightarrow>
   findAttachmentsLoop x n dsk (pre @ (name, v) # post) acc = Inl (InterfaceConversion v)"
proof (induction pre arbitrary: acc)
  case Nil
  then show ?case by simp
next
  case (Cons e pre)
  obtain name' v' where e: "e = (name', v')" by (cases e)
  obtain m where v': "as_map v' = Some m" using Cons.prems e by auto
  have rest: "\<forall>e \<in> set pre. as_map (snd e) \<noteq> None" using Cons.prems by simp
  show ?case
    using Cons.IH [OF rest Cons.prems(2)] e v'
    by (simp split: prod.splits)
qed

text \<open>
  Claim C7, as the source has it. For every body whose attachment-map entries are all maps
  and every threshold \<open>n\<close>, \<open>findAttachments\<close> returns the body and, in the order of
  the map, one handle for each entry whose \<open>revpos\<close> is accepted by \<open>base.ToInt64\<close>
  and is at least \<open>n\<close>, and for no other entry; the handle's candidate list is the one
  source that the preferred-delta-sources map has under the entry's name, or nil. An entry
  with no \<open>revpos\<close> gets no handle, \<open>base.ToInt64\<close> rejecting nil. On a body with an
  entry that is not a map, \<open>findAttachments\<close> panics at the first such entry.
\<close>

theorem findAttachments_exact:
  "((\<forall>e \<in> set (elems (Attachments body)). as_map (snd e) \<noteq> None) \<longrightarrow>
      findAttachments x body n dsk =
        Inr (body, map (handle_for dsk)
                     (filter (\<lambda>e. revpos_at_least x n (snd e)) (elems (Attachments body))))) \<and>
   (map_of m ''revpos'' = None \<and> \<not> snd (ToInt64 x VNil) \<longrightarrow> \<not> revpos_at_least x n (VMap m)) \<and>
   (Attachments body = Some (pre @ (name, v) # post) \<and>
    (\<forall>e \<in> set pre. as_map (snd e) \<noteq> None) \<and> as_map v = None \<longrightarrow>
      findAttachments x body n dsk = Inl (InterfaceConversion v))"
proof (intro conjI impI)
  assume "\<forall>e \<in> set (elems (Attachments body)). as_map (snd e) \<noteq> None"
  from findAttachmentsLoop_maps [OF this, of x n dsk "[]"]
  show "findAttachments x body n dsk =
        Inr (body, map (handle_for dsk)
                     (filter (\<lambda>e. revpos_at_least x n (snd e)) (elems (Attachments body))))"
    by (simp add: findAttachments_def ImmutableAttachmentsCopy_def)
next
  assume "map_of m ''revpos'' = None \<and> \<not> snd (ToInt64 x VNil)"
  then show "\<not> revpos_at_least x n (VMap m)"
    by (auto simp add: revpos_at_least_def as_map_def elems_def index_def split: prod.splits)
next
  assume h: "Attachments body = Some (pre @ (name, v) # post) \<and>
    (\<forall>e \<in> set pre. as_map (snd e) \<noteq> None) \<and> as_map v = None"
  then have "findAttachmentsLoop x n dsk (pre @ (name, v) # post) [] = Inl (InterfaceConversion v)"
    by (intro findAttachmentsLoop_panics) simp_all
  then show "findAttachments x body n dsk = Inl (InterfaceConversion v)"
    using h by (simp add: findAttachments_def ImmutableAttachmentsCopy_def elems_def)
qed

text \<open>
  As stated, C7 is about every body. On an entry that is not a map the one-result type
  assertion panics, and no handle is returned for the entry with \<open>revpos\<close> 3 either.
\<close>

theorem findAttachments_exact_counterexample:
  "findAttachments plain scalar_entry 1 (map_of []) = Inl (InterfaceConversion (VFloat64 5))"
  by (simp add: findAttachments_def ImmutableAttachmentsCopy_def scalar_entry_def Attachments_def
      index_def as_map_def elems_def)

theorem findAttachments_exact_witness:
  "findAttachments plain stored_doc 2 (map_of [(''new.txt'', ''sha1-B'')]) =
     Inr (stored_doc,
          [\<lparr>Name = ''new.txt'', followingData = None, possibleDeltaSources = Some [''sha1-B''],
            deltaSource = '''',
            meta = [(''stub'', VBool True), (''digest'', VString ''sha1-T''), (''revpos'', VFloat64 3)]\<rparr>]) \<and>
   \<not> revpos_at_least plain 2 (VMap [(''stub'', VBool True), (''digest'', VString ''sha1-T'')]) \<and>
   findAttachments plain
     [(''_attachments'', VMap [(''b'', VMap [(''revpos'', VFloat64 3)]), (''a'', VString ''oops'')])]
     1 (map_of []) = Inl (InterfaceConversion (VString ''oops''))"
proof -
  have 1: "findAttachments plain stored_doc 2 (map_of [(''new.txt'', ''sha1-B'')]) =
     Inr (stored_doc,
          [\<lparr>Name = ''new.txt'', followingData = None, possibleDeltaSources = Some [''sha1-B''],
            deltaSource = '''',
            meta = [(''stub'', VBool True), (''digest'', VString ''sha1-T''), (''revpos'', VFloat64 3)]\<rparr>])"
    using findAttachments_exact [THEN conjunct1, of stored_doc plain 2 "map_of [(''new.txt'', ''sha1-B'')]"]
    by (simp add: stored_doc_def Attachments_def index_def as_map_def elems_def revpos_at_least_def
        handle_for_def plain_def)
  have 2: "\<not> revpos_at_least plain 2 (VMap [(''stub'', VBool True), (''digest'', VString ''sha1-T'')])"
    using findAttachments_exact [THEN conjunct2, THEN conjunct1,
        of "[(''stub'', VBool True), (''digest'', VString ''sha1-T'')]" plain 2]
    by (simp add: plain_def)
  have 3: "findAttachments plain
     [(''_attachments'', VMap [(''b'', VMap [(''revpos'', VFloat64 3)]), (''a'', VString ''oops'')])]
     1 (map_of []) = Inl (InterfaceConversion (VString ''oops''))"
    using findAttachments_exact [THEN conjunct2, THEN conjunct2,
        of "[(''_attachments'', VMap [(''b'', VMap [(''revpos'', VFloat64 3)]), (''a'', VString ''oops'')])]"
           "[(''b'', VMap [(''revpos'', VFloat64 3)])]" "''a''" "VString ''oops''" "[]" plain 1 "map_of []"]
    by (simp add: Attachments_def index_def as_map_def)
  show ?thesis using 1 2 3 by blast
qed

section \<open>Ingestion\<close>

lemma storeAttachmentsLoop_append:
  "storeAttachmentsLoop x c doc generation parentRev (pre @ rest) atts pa db =
     (case storeAttachmentsLoop x c doc generation parentRev pre atts pa db of
        (Some err, r) \<Rightarrow> (Some err, r)
      | (None, atts', pa', db') \<Rightarrow>
          storeAttachmentsLoop x c doc generation parentRev rest atts' pa' db')"
proof (induction pre arbitrary: atts pa db)
  case Nil
  then show ?case by simp
next
  case (Cons e pre)
  obtain name v where e: "e = (name, v)" by (cases e)
  show ?case
    unfolding e
    by (simp add: Cons.IH Let_def split: option.splits prod.splits if_splits)
qed

lemma Attachments_Some:
  "Attachments body = Some m \<Longrightarrow> map_of body ''_attachments'' = Some (VMap m)"
  by (auto simp add: Attachments_def index_def as_map_def split: option.splits any.splits)

text \<open>
  Claim C2, as the source has it. When the reserved field holds a value that is neither nil
  nor a map, \<open>storeAttachments\<close> fails with the malformed-input error (status 400) and
  calls no collaborator, so it writes nothing; when the field holds nil, there is nothing
  to store and no error. When an entry of the attachment map is not a
  map, \<open>storeAttachments\<close> fails as well: if that entry is the first that \<open>range\<close>
  visits, with the malformed-input error and without any call; in general after the entries
  visited before it have been processed, with the error of the first of them that fails or
  else with the malformed-input error, and the entries after it are not looked at.
\<close>

theorem storeAttachments_malformed:
  "(index body ''_attachments'' \<noteq> VNil \<and> as_map (index body ''_attachments'') = None \<longrightarrow>
      storeAttachments x c db doc body generation parentRev =
        (Some (HTTPError 400 ''Invalid _attachments'' []), body, db)) \<and>
   (index body ''_attachments'' = VNil \<longrightarrow>
      storeAttachments x c db doc body generation parentRev = (None, body, db)) \<and>
   (Attachments body = Some ((name, v) # post) \<and> as_map v = None \<longrightarrow>
      storeAttachments x c db doc body generation parentRev =
        (Some (HTTPError 400 ''Invalid _attachments'' []), body, db)) \<and>
   (Attachments body = Some (pre @ (name, v) # post) \<and> as_map v = None \<longrightarrow>
      storeAttachments x c db doc body generation parentRev =
        (case storeAttachmentsLoop x c doc generation parentRev pre (pre @ (name, v) # post) None db of
           (err, m, _, db') \<Rightarrow>
             (Some (case err of Some e \<Rightarrow> e | None \<Rightarrow> HTTPError 400 ''Invalid _attachments'' []),
              AList.update ''_attachments'' (VMap m) body, db')))"
proof (intro conjI impI)
  assume "index body ''_attachments'' \<noteq> VNil \<and> as_map (index body ''_attachments'') = None"
  then show "storeAttachments x c db doc body generation parentRev =
        (Some (HTTPError 400 ''Invalid _attachments'' []), body, db)"
    by (simp add: storeAttachments_def Attachments_def HTTPErrorf_def)
next
  assume "index body ''_attachments'' = VNil"
  then show "storeAttachments x c db doc body generation parentRev = (None, body, db)"
    by (simp add: storeAttachments_def Attachments_def as_map_def)
next
  assume h: "Attachments body = Some ((name, v) # post) \<and> as_map v = None"
  then have "AList.update ''_attachments'' (VMap ((name, v) # post)) body = body"
    by (intro update_triv Attachments_Some) simp
  then show "storeAttachments x c db doc body generation parentRev =
        (Some (HTTPError 400 ''Invalid _attachments'' []), body, db)"
    using h by (simp add: storeAttachments_def HTTPErrorf_def)
next
  assume h: "Attachments body = Some (pre @ (name, v) # post) \<and> as_map v = None"
  show "storeAttachments x c db doc body generation parentRev =
        (case storeAttachmentsLoop x c doc generation parentRev pre (pre @ (name, v) # post) None db of
           (err, m, _, db') \<Rightarrow>
             (Some (case err of Some e \<Rightarrow> e | None \<Rightarrow> HTTPError 400 ''Invalid _attachments'' []),
              AList.update ''_attachments'' (VMap m) body, db'))"
    using h
    by (simp add: storeAttachments_def storeAttachmentsLoop_append HTTPErrorf_def
        split: prod.splits option.splits)
qed

lemma storeAttachments_inline_then_scalar:
  "storeAttachments plain in_memory (opened empty_mem) () inline_then_scalar 1 '''' =
     (Some (HTTPError 400 ''Invalid _attachments'' []),
      [(''_attachments'', VMap
          [(''a.txt'', VMap [(''stub'', VBool True),
                            (''digest'', VString (SHA1DigestKey plain (Some [104, 105]))),
                            (''revpos'', VInt 1), (''length'', VInt 2)]),
           (''b.txt'', VFloat64 5)])],
      \<lparr>Bucket = \<lparr>blobs = [(attachmentKeyToDocKey (SHA1DigestKey plain (Some [104, 105])), [104, 105])],
                 deltas = [], codec = [], revs = []\<rparr>,
       calls = [AddRawCall (attachmentKeyToDocKey (SHA1DigestKey plain (Some [104, 105]))) (Some [104, 105])]\<rparr>)"
  by (simp add: storeAttachments_def inline_then_scalar_def Attachments_def index_def as_map_def
      decodeData_def storeAttachment_def Bucket_AddRaw_def in_memory_def opened_def empty_mem_def
      newMeta_def as_string_def len_def contents_def HTTPErrorf_def Let_def)

text \<open>
  As stated, C2 has no write to the content store whenever an entry is not a map, and a
  failure whenever the field holds a value that is not a map. With an inline attachment
  visited before the malformed entry, the attachment is written before the error; and a
  field that holds nil is accepted.
\<close>

theorem storeAttachments_malformed_counterexample:
  "Attachments inline_then_scalar =
     Some [(''a.txt'', VMap [(''data'', VBytes (Some [104, 105]))]), (''b.txt'', VFloat64 5)] \<and>
   as_map (VFloat64 5) = None \<and>
   fst (storeAttachments plain in_memory (opened empty_mem) () inline_then_scalar 1 '''') =
     Some (HTTPError 400 ''Invalid _attachments'' []) \<and>
   store_writes (calls (snd (snd
     (storeAttachments plain in_memory (opened empty_mem) () inline_then_scalar 1 '''')))) =
     [AddRawCall (attachmentKeyToDocKey (SHA1DigestKey plain (Some [104, 105]))) (Some [104, 105])] \<and>
   map_of [(''_attachments'', VNil)] ''_attachments'' = Some VNil \<and>
   storeAttachments plain in_memory (opened empty_mem) () [(''_attachments'', VNil)] 1 '''' =
     (None, [(''_attachments'', VNil)], opened empty_mem)"
  by (simp add: storeAttachments_inline_then_scalar store_writes_def)
     (simp add: storeAttachments_def inline_then_scalar_def Attachments_def index_def as_map_def)

theorem storeAttachments_malformed_witness:
  "storeAttachments plain in_memory (opened empty_mem) () [(''_attachments'', VString ''oops'')] 1 '''' =
     (Some (HTTPError 400 ''Invalid _attachments'' []), [(''_attachments'', VString ''oops'')],
      opened empty_mem) \<and>
   storeAttachments plain in_memory (opened empty_mem) () scalar_then_inline 1 '''' =
     (Some (HTTPError 400 ''Invalid _attachments'' []), scalar_then_inline, opened empty_mem) \<and>
   fst (storeAttachments plain in_memory (opened empty_mem) () inline_then_scalar 1 '''') \<noteq> None \<and>
   storeAttachments plain in_memory (opened empty_mem) () [(''_attachments'', VNil)] 1 '''' =
     (None, [(''_attachments'', VNil)], opened empty_mem)"
proof -
  have 1: "storeAttachments plain in_memory (opened empty_mem) () [(''_attachments'', VString ''oops'')] 1 '''' =
     (Some (HTTPError 400 ''Invalid _attachments'' []), [(''_attachments'', VString ''oops'')],
      opened empty_mem)"
    using storeAttachments_malformed [THEN conjunct1, THEN mp,
        of "[(''_attachments'', VString ''oops'')]" plain in_memory "opened empty_mem" "()" 1 "''''"]
    by (simp add: index_def as_map_def)
  have 2: "storeAttachments plain in_memory (opened empty_mem) () scalar_then_inline 1 '''' =
     (Some (HTTPError 400 ''Invalid _attachments'' []), scalar_then_inline, opened empty_mem)"
    using storeAttachments_malformed [THEN conjunct2, THEN conjunct2, THEN conjunct1, THEN mp,
        of scalar_then_inline "''b.txt''" "VFloat64 5"
           "[(''a.txt'', VMap [(''data'', VBytes (Some [104, 105]))])]"
           plain in_memory "opened empty_mem" "()" 1 "''''"]
    by (simp add: scalar_then_inline_def Attachments_def index_def as_map_def)
  have a: "Attachments inline_then_scalar =
      Some ([(''a.txt'', VMap [(''data'', VBytes (Some [104, 105]))])] @ (''b.txt'', VFloat64 5) # []) \<and>
      as_map (VFloat64 5) = None"
    by (simp add: inline_then_scalar_def Attachments_def index_def as_map_def)
  obtain err m p d where l:
    "storeAttachmentsLoop plain in_memory () 1 '''' [(''a.txt'', VMap [(''data'', VBytes (Some [104, 105]))])]
       ([(''a.txt'', VMap [(''data'', VBytes (Some [104, 105]))])] @ (''b.txt'', VFloat64 5) # []) None
       (opened empty_mem) = (err, m, p, d)"
    by (rule prod_cases4)
  have 3: "fst (storeAttachments plain in_memory (opened empty_mem) () inline_then_scalar 1 '''') \<noteq> None"
    unfolding storeAttachments_malformed [THEN conjunct2, THEN conjunct2, THEN conjunct2, THEN mp, OF a,
        of plain in_memory "opened empty_mem" "()" 1 "''''"] l
    by simp
  have 4: "storeAttachments plain in_memory (opened empty_mem) () [(''_attachments'', VNil)] 1 '''' =
     (None, [(''_attachments'', VNil)], opened empty_mem)"
    using storeAttachments_malformed [THEN conjunct2, THEN conjunct1, THEN mp,
        of "[(''_attachments'', VNil)]" plain in_memory "opened empty_mem" "()" 1 "''''"]
    by (simp add: index_def)
  show ?thesis using 1 2 3 4 by blast
qed

text \<open>
  A stub without inline data, with \<open>stub\<close> true and a positive \<open>revpos\<close>: while no
  attachments of the parent are known, they are fetched. If the parent has an attachment
  map, the entry is replaced by the parent's entry of that name, or kept as it is when the
  parent has none; the \<open>digest\<close> of the stub is not looked at. Only if the parent or its
  attachment map is missing is a stub without \<open>digest\<close> refused.
\<close>

lemma stub_inherits_or_is_kept:
  assumes "as_map v = Some m" and "map_of m ''data'' = None" and "index m ''stub'' = VBool True"
    and "ToInt64 x (index m ''revpos'') = (revpos, True)" and "1 \<le> revpos"
    and "getAvailableRev c (Bucket db) doc parentRev = Some parent"
    and "Attachments parent = Some pa"
  shows "storeAttachmentsLoop x c doc generation parentRev ((name, v) # rest) atts None db =
           storeAttachmentsLoop x c doc generation parentRev rest
             (if index pa name \<noteq> VNil then AList.update name (index pa name) atts else atts)
             (Some pa) (db\<lparr>calls := calls db @ [AvailableRevCall parentRev]\<rparr>)"
  using assms by (simp add: db_getAvailableRev_def Let_def)

lemma stub_without_parent_attachments:
  assumes "as_map v = Some m" and "map_of m ''data'' = None" and "index m ''stub'' = VBool True"
    and "ToInt64 x (index m ''revpos'') = (revpos, True)" and "1 \<le> revpos"
    and "(case getAvailableRev c (Bucket db) doc parentRev of
            None \<Rightarrow> None | Some parent \<Rightarrow> Attachments parent) = None"
  shows "storeAttachmentsLoop x c doc generation parentRev ((name, v) # rest) atts None db =
           (if index m ''digest'' = VNil then
              (Some (HTTPError 400 ''Missing digest in stub attachment %q'' [VString name]), atts, None,
               db\<lparr>calls := calls db @ [AvailableRevCall parentRev]\<rparr>)
            else storeAttachmentsLoop x c doc generation parentRev rest atts None
                   (db\<lparr>calls := calls db @ [AvailableRevCall parentRev]\<rparr>))"
proof (cases "getAvailableRev c (Bucket db) doc parentRev")
  case None
  with assms show ?thesis
    by (simp add: db_getAvailableRev_def Let_def HTTPErrorf_def)
next
  case (Some parent)
  with assms have "Attachments parent = None" by simp
  with assms Some show ?thesis
    by (simp add: db_getAvailableRev_def Let_def HTTPErrorf_def)
qed

text \<open>
  Claim C1 says that a stub for which no parent attachment of the same name is found must
  carry its own \<open>digest\<close>, in particular when the parent has an attachment map without
  that name. The source at that input: the stub \<open>photo.png\<close> has no \<open>data\<close>, \<open>stub\<close>
  true, \<open>revpos\<close> 2 and no \<open>digest\<close>; the parent revision has an attachment map with
  \<open>other.txt\<close> only; \<open>storeAttachments\<close> returns no error and leaves the body as it
  is.
\<close>

theorem storeAttachments_stub_without_digest:
  "map_of stub_body ''_attachments'' =
     Some (VMap [(''photo.png'', VMap [(''stub'', VBool True), (''revpos'', VFloat64 2)])]) \<and>
   ToInt64 plain (VFloat64 2) = (2, True) \<and>
   getAvailableRev in_memory with_parent () ''1-abc'' = Some parent_body \<and>
   Attachments parent_body =
     Some [(''other.txt'', VMap [(''stub'', VBool True), (''digest'', VString ''sha1-T''),
                                (''revpos'', VFloat64 1)])] \<and>
   storeAttachments plain in_memory (opened with_parent) () stub_body 2 ''1-abc'' =
     (None, stub_body, \<lparr>Bucket = with_parent, calls = [AvailableRevCall ''1-abc'']\<rparr>)"
  by (simp add: storeAttachments_def stub_body_def Attachments_def index_def as_map_def
      plain_def in_memory_def opened_def with_parent_def parent_body_def db_getAvailableRev_def)

text \<open>The same stub when the parent revision is not available: the digest is asked for.\<close>

lemma stub_refused_without_parent:
  "storeAttachments plain in_memory (opened empty_mem) () stub_body 2 ''1-abc'' =
     (Some (HTTPError 400 ''Missing digest in stub attachment %q'' [VString ''photo.png'']),
      stub_body, \<lparr>Bucket = empty_mem, calls = [AvailableRevCall ''1-abc'']\<rparr>)"
  by (simp add: storeAttachments_def stub_body_def Attachments_def index_def as_map_def
      plain_def in_memory_def opened_def empty_mem_def db_getAvailableRev_def HTTPErrorf_def)

end
